theory Spec2Isabelle
  imports Complex_Main "HOL-Library.Log_Nat" "HOL-Library.Sublist"
begin

section \<open>Chip resistor package generator (generate\_chip.py)\<close>

text \<open>
  A shallow embedding of \<^verbatim>\<open>generate_chip.py\<close>: the identifier cache behind
  \<^verbatim>\<open>uuid\<close>, the class \<^verbatim>\<open>ChipConfig\<close>, and the body of \<^verbatim>\<open>generate_pkg\<close> with its
  nested \<^verbatim>\<open>add_footprint_variant\<close>. The module mutates a global dictionary and a local
  list of output lines; here the dictionary is part of an explicit state and every block of
  the source returns the lines it appends.
\<close>

subsection \<open>Strings\<close>

text \<open>
  Python strings are modelled as \<^typ>\<open>string\<close>, a text outside ASCII by its UTF-8 bytes.
  \<^verbatim>\<open>replace(' ', '~')\<close> replaces single characters, and a space is one byte that is part
  of no other character, so it is a map over the characters. \<^verbatim>\<open>str.lower\<close> follows the
  Unicode tables and is a parameter of the model (\<open>str_lower\<close> below).
\<close>

definition replace_char :: "char \<Rightarrow> char \<Rightarrow> string \<Rightarrow> string" where
  "replace_char old new s = map (\<lambda>c. if c = old then new else c) s"

subsection \<open>What the module imports\<close>

text \<open>
  \<^verbatim>\<open>common.py\<close> (\<^verbatim>\<open>format_float\<close> as \<^verbatim>\<open>ff\<close>, \<^verbatim>\<open>format_ipc_dimension\<close> as \<^verbatim>\<open>fd\<close>,
  \<^verbatim>\<open>now\<close>) is not among the sources, and \<^verbatim>\<open>uuid4\<close>, \<^verbatim>\<open>str.lower\<close>, \<^verbatim>\<open>str.format\<close>
  with keyword arguments and the text of a float are Python's own. They are parameters of
  the model: \<open>str_lower\<close> is \<^verbatim>\<open>str.lower\<close>, \<open>float_str\<close> is what \<^verbatim>\<open>'{}'.format(x)\<close>
  gives for a float \<open>x\<close>, and \<open>str_format\<close> is \<^verbatim>\<open>template.format(**params)\<close>,
  which returns a text or raises: \<^verbatim>\<open>KeyError\<close> for a field that is not among the
  parameters, \<^verbatim>\<open>IndexError\<close> for a positional field, \<^verbatim>\<open>ValueError\<close> for a malformed
  template or format specification, \<^verbatim>\<open>AttributeError\<close> or \<^verbatim>\<open>TypeError\<close> for an attribute
  or an index of a field that its value does not have.

  \<^verbatim>\<open>uuid4()\<close> draws a random identifier with 122 random bits. The model makes the
  source of randomness explicit as the sequence of the values drawn, \<open>draw u n\<close> being the
  result of the \<open>n\<close>-th call of \<^verbatim>\<open>str(uuid4())\<close>, in this run or in an earlier one. The
  identifiers are taken to be unique, as the library means them to be: a sequence of draws
  is a sequence without repetition, and the chance that two random draws coincide is left
  out of the model.
\<close>

datatype py_value = Str string | Float real

datatype py_error =
  IndexError | OverflowError | KeyError | ValueError | AttributeError | TypeError

typedef uuid4_draws = "{f :: nat \<Rightarrow> string. inj f}"
  morphisms draw Abs_uuid4_draws
proof
  show "(\<lambda>n. replicate n (CHR ''0'')) \<in> {f :: nat \<Rightarrow> string. inj f}"
    by (simp add: inj_def)
qed

record externals =
  ff :: "real \<Rightarrow> string"
  fd :: "real \<Rightarrow> string"
  now :: string
  uuid4 :: uuid4_draws
  str_lower :: "string \<Rightarrow> string"
  float_str :: "real \<Rightarrow> string"
  str_format :: "string \<Rightarrow> (string \<times> py_value) list \<Rightarrow> py_error + string"

subsection \<open>The identifier cache\<close>

text \<open>
  \<^verbatim>\<open>uuid_cache\<close> is a module-level dictionary from keys to identifiers. The state holds
  the dictionary and the number of calls of \<^verbatim>\<open>uuid4()\<close> made so far, so that the next
  identifier drawn is \<open>draw (uuid4 X) (uuid4_calls s)\<close>.
\<close>

record gen_state =
  uuid_cache :: "string \<rightharpoonup> string"
  uuid4_calls :: nat

definition uuid_key :: "externals \<Rightarrow> string \<Rightarrow> string \<Rightarrow> string \<Rightarrow> string" where
  \<comment> \<open>\<^verbatim>\<open>'{}-{}-{}'.format(category, full_name, identifier).lower().replace(' ', '~')\<close>\<close>
  "uuid_key X category full_name identifier =
     replace_char (CHR '' '') (CHR ''~'')
       (str_lower X (category @ ''-'' @ full_name @ ''-'' @ identifier))"

definition uuid ::
  "externals \<Rightarrow> string \<Rightarrow> string \<Rightarrow> string \<Rightarrow> gen_state \<Rightarrow> string \<times> gen_state" where
  "uuid X category full_name identifier s =
     (let key = uuid_key X category full_name identifier in
      case uuid_cache s key of
        None \<Rightarrow>
          (draw (uuid4 X) (uuid4_calls s),
           s\<lparr>uuid_cache := (uuid_cache s)(key \<mapsto> draw (uuid4 X) (uuid4_calls s)),
             uuid4_calls := Suc (uuid4_calls s)\<rparr>)
      | Some u \<Rightarrow> (u, s))"

fun uuid_calls :: "externals \<Rightarrow> (string \<times> string \<times> string) list \<Rightarrow> gen_state \<Rightarrow> gen_state" where
  \<comment> \<open>the state after a sequence of calls of \<^verbatim>\<open>uuid\<close>, given by their arguments\<close>
  "uuid_calls X [] s = s"
| "uuid_calls X ((category, full_name, identifier) # calls) s =
     uuid_calls X calls (snd (uuid X category full_name identifier s))"

text \<open>
  The invariant of the cache that the proofs below carry along a sequence of calls: every
  identifier in the cache was drawn by an earlier call of \<^verbatim>\<open>uuid4\<close>, and no two keys hold
  the same identifier.
\<close>

definition cache_of_draws :: "externals \<Rightarrow> gen_state \<Rightarrow> bool" where
  "cache_of_draws X s \<longleftrightarrow>
     (\<forall>k u. uuid_cache s k = Some u \<longrightarrow> (\<exists>j<uuid4_calls s. u = draw (uuid4 X) j))
     \<and> (\<forall>k k' u. uuid_cache s k = Some u \<and> uuid_cache s k' = Some u \<longrightarrow> k = k')"

subsection \<open>Floating point numbers\<close>

text \<open>
  A Python \<^verbatim>\<open>float\<close> is an IEEE 754 binary64 number. A finite float is modelled by
  the real number it denotes, and every arithmetic operation computes the exact result and
  rounds it to the nearest binary64 value, ties to even (\<open>fl\<close>). A decimal literal of the
  source such as \<^verbatim>\<open>0.15\<close> denotes \<open>fl 0.15\<close>. The exponent is bounded below (below
  \<open>2 powi (- 1022)\<close> the spacing stays \<open>2 powi (- 1074)\<close>). Above, the largest finite
  float is just below \<open>2 ^ 1024\<close>: an operation whose result, rounded as if the exponent had
  no bound, reaches \<open>2 ^ 1024\<close> in magnitude gives an infinity (\<open>float_overflow\<close>), and
  \<^verbatim>\<open>int\<close> of an infinity raises \<^verbatim>\<open>OverflowError\<close>. The only place of the module where
  a finite float can become infinite is the product by ten in \<^verbatim>\<open>size_metric\<close>, whose
  result goes to \<^verbatim>\<open>int\<close> at once; the sums and differences of halves in
  \<^verbatim>\<open>add_footprint_variant\<close> stay finite. Infinite and NaN arguments are not values of
  the model.
\<close>

definition ilog2 :: "real \<Rightarrow> int" where
  \<comment> \<open>for \<open>0 < x\<close>, the exponent \<open>e\<close> with \<open>2 powi e \<le> x < 2 powi (e + 1)\<close>\<close>
  "ilog2 x = (if 1 \<le> x then bitlen \<lfloor>x\<rfloor> - 1 else - bitlen (\<lceil>1 / x\<rceil> - 1))"

definition round_half_even :: "real \<Rightarrow> int" where
  "round_half_even q =
     (if q - of_int \<lfloor>q\<rfloor> < 1 / 2 then \<lfloor>q\<rfloor>
      else if 1 / 2 < q - of_int \<lfloor>q\<rfloor> then \<lfloor>q\<rfloor> + 1
      else if even \<lfloor>q\<rfloor> then \<lfloor>q\<rfloor>
      else \<lfloor>q\<rfloor> + 1)"

definition ulp_exp :: "real \<Rightarrow> int" where
  \<comment> \<open>the exponent of the last of the 53 significant bits of \<open>x\<close>\<close>
  "ulp_exp x = max (ilog2 \<bar>x\<bar>) (- 1022) - 52"

definition fl :: "real \<Rightarrow> real" where
  "fl x =
     (if x = 0 then 0
      else sgn x * (of_int (round_half_even (\<bar>x\<bar> / 2 powi ulp_exp x)) * 2 powi ulp_exp x))"

definition fadd :: "real \<Rightarrow> real \<Rightarrow> real" where
  "fadd x y = fl (x + y)"

definition fsub :: "real \<Rightarrow> real \<Rightarrow> real" where
  "fsub x y = fl (x - y)"

definition fmul :: "real \<Rightarrow> real \<Rightarrow> real" where
  "fmul x y = fl (x * y)"

definition fdiv :: "real \<Rightarrow> real \<Rightarrow> real" where
  \<comment> \<open>the source divides by the literal \<^verbatim>\<open>2\<close> only, so \<^verbatim>\<open>ZeroDivisionError\<close> is not modelled\<close>
  "fdiv x y = fl (x / y)"

definition float_overflow :: "real \<Rightarrow> bool" where
  \<comment> \<open>of the rounded result of an operation: it is beyond the finite floats, so that the
     operation gives an infinity\<close>
  "float_overflow r \<longleftrightarrow> 2 ^ 1024 \<le> \<bar>r\<bar>"

definition int_part :: "real \<Rightarrow> int" where
  \<comment> \<open>the integer part of a number: what is after the point is dropped\<close>
  "int_part x = (if 0 \<le> x then \<lfloor>x\<rfloor> else \<lceil>x\<rceil>)"

subsection \<open>Integers as text, padding, indexing\<close>

fun str_nat :: "nat \<Rightarrow> string" where
  "str_nat n =
     (if n < 10 then [''0123456789'' ! n]
      else str_nat (n div 10) @ [''0123456789'' ! (n mod 10)])"

declare str_nat.simps [simp del]

definition str_int :: "int \<Rightarrow> string" where
  "str_int i = (if i < 0 then CHR ''-'' # str_nat (nat (- i)) else str_nat (nat i))"

definition rjust :: "nat \<Rightarrow> char \<Rightarrow> string \<Rightarrow> string" where
  "rjust n fillchar s = replicate (n - length s) fillchar @ s"

definition py_int :: "real \<Rightarrow> py_error + int" where
  \<comment> \<open>\<^verbatim>\<open>int(x)\<close> of the result \<open>x\<close> of a float operation: a finite float is truncated
     towards zero, an infinity raises \<^verbatim>\<open>OverflowError\<close>\<close>
  "py_int x = (if float_overflow x then Inl OverflowError else Inr (int_part x))"

definition py_getitem :: "'a list \<Rightarrow> int \<Rightarrow> py_error + 'a" where
  \<comment> \<open>\<^verbatim>\<open>xs[i]\<close>: an index from \<open>- len(xs)\<close> to \<open>- 1\<close> counts from the end\<close>
  "py_getitem xs i =
     (if 0 \<le> i \<and> i < int (length xs) then Inr (xs ! nat i)
      else if - int (length xs) \<le> i \<and> i < 0 then Inr (xs ! nat (int (length xs) + i))
      else Inl IndexError)"

definition bind_err :: "py_error + 'a \<Rightarrow> ('a \<Rightarrow> py_error + 'b) \<Rightarrow> py_error + 'b" where
  "bind_err r f = (case r of Inl e \<Rightarrow> Inl e | Inr v \<Rightarrow> f v)"

subsection \<open>Module constants\<close>

definition generator :: string where
  "generator = ''librepcb-parts-generator (generate_chip.py)''"

definition line_width :: real where "line_width = fl 0.25"
definition line_width_thin :: real where "line_width_thin = fl 0.15"
definition line_width_thinner :: real where "line_width_thinner = fl 0.1"
definition pkg_text_height :: real where "pkg_text_height = 1"
definition label_offset :: real where "label_offset = fl 1.1"
definition label_offset_thin :: real where "label_offset_thin = fl 0.8"
definition silkscreen_clearance :: real where "silkscreen_clearance = fl 0.15"

subsection \<open>ChipConfig\<close>

record ChipConfig =
  size_imperial_attr :: string
  length_mm :: real
  width :: real
  height :: real
  pad_length :: real
  pad_width :: real
  gap :: real

definition size_metric :: "ChipConfig \<Rightarrow> py_error + string" where
  "size_metric self =
     bind_err (py_int (fmul (length_mm self) 10)) (\<lambda>l.
     bind_err (py_int (fmul (width self) 10)) (\<lambda>w.
       Inr (rjust 2 (CHR ''0'') (str_int l) @ rjust 2 (CHR ''0'') (str_int w))))"

definition size_imperial :: "ChipConfig \<Rightarrow> string" where
  "size_imperial self = size_imperial_attr self"

subsection \<open>generate\_pkg: the lines of one footprint variant\<close>

text \<open>
  \<^verbatim>\<open>add_footprint_variant\<close> is a closure inside the loop of \<^verbatim>\<open>generate_pkg\<close>: it reads
  \<^verbatim>\<open>config\<close>, \<^verbatim>\<open>full_name\<close> (through \<^verbatim>\<open>_uuid\<close>) and \<^verbatim>\<open>uuid_pads\<close>, and appends to
  \<^verbatim>\<open>lines\<close>. Each definition below is one block of its body, in the order of the source,
  and returns the lines that block appends. The thresholds \<^verbatim>\<open>1.0\<close> and \<^verbatim>\<open>2.0\<close> are
  binary64 values and are written \<open>1\<close> and \<open>2\<close>.
\<close>

definition uuid_pkg_role :: "externals \<Rightarrow> string \<Rightarrow> string \<Rightarrow> gen_state \<Rightarrow> string \<times> gen_state" where
  \<comment> \<open>\<^verbatim>\<open>_uuid(identifier)\<close>, with \<^verbatim>\<open>category = 'pkg'\<close>\<close>
  "uuid_pkg_role X full_name identifier s = uuid X ''pkg'' full_name identifier s"

definition line_widths :: "ChipConfig \<Rightarrow> real \<times> real" where
  \<comment> \<open>the pair \<^verbatim>\<open>(silk_lw, doc_lw)\<close>\<close>
  "line_widths config =
     (if 2 \<le> length_mm config then (line_width, line_width)
      else if 1 \<le> length_mm config then (line_width_thin, line_width_thin)
      else (line_width_thin, line_width_thinner))"

definition pad_lines :: "externals \<Rightarrow> ChipConfig \<Rightarrow> string list \<Rightarrow> int \<Rightarrow> py_error + string list" where
  \<comment> \<open>the body of \<^verbatim>\<open>for p in [0, 1]\<close>\<close>
  \<open>pad_lines X config pads p =
     bind_err (py_getitem pads (p - 1)) (\<lambda>pad_uuid.
       let sign = (if p = 1 then - 1 else 1) :: int;
           dx = ff X (fmul (of_int sign) (fadd (fdiv (gap config) 2) (fdiv (pad_length config) 2)))
       in Inr
         [''  (pad '' @ pad_uuid @ '' (side top) (shape rect)'',
          ''   (position '' @ dx @ '' 0) (rotation 0.0) (size '' @ ff X (pad_length config)
            @ '' '' @ ff X (pad_width config) @ '') (drill 0.0)'',
          ''  )''])\<close>

fun for_each :: "('a \<Rightarrow> py_error + string list) \<Rightarrow> 'a list \<Rightarrow> py_error + string list" where
  "for_each body [] = Inr []"
| "for_each body (x # xs) =
     bind_err (body x) (\<lambda>new. bind_err (for_each body xs) (\<lambda>rest. Inr (new @ rest)))"

definition documentation_lines :: "externals \<Rightarrow> ChipConfig \<Rightarrow> string \<Rightarrow> real \<Rightarrow> string list" where
  \<open>documentation_lines X config u_outline doc_lw =
     (let hl = ff X (fdiv (width config) 2);
          hw = ff X (fdiv (length_mm config) 2)
      in
        [''  (polygon '' @ u_outline @ '' (layer '' @ ''top_documentation'' @ '')'',
         ''   (width '' @ float_str X doc_lw @ '') (fill false) (grab_area true)'',
         ''   (vertex (position -'' @ hw @ '' '' @ hl @ '') (angle 0.0))'',
         ''   (vertex (position '' @ hw @ '' '' @ hl @ '') (angle 0.0))'',
         ''   (vertex (position '' @ hw @ '' -'' @ hl @ '') (angle 0.0))'',
         ''   (vertex (position -'' @ hw @ '' -'' @ hl @ '') (angle 0.0))'',
         ''   (vertex (position -'' @ hw @ '' '' @ hl @ '') (angle 0.0))'',
         ''  )''])\<close>

definition silkscreen_lines ::
  "externals \<Rightarrow> ChipConfig \<Rightarrow> string \<Rightarrow> string \<Rightarrow> real \<Rightarrow> string list" where
  \<open>silkscreen_lines X config u_silkscreen_top u_silkscreen_bot silk_lw =
     (if 1 < length_mm config then
        let dx = ff X (fsub (fsub (fdiv (gap config) 2) (fdiv silk_lw 2)) silkscreen_clearance);
            dy = ff X (fadd (fdiv (width config) 2) (fdiv silk_lw 2))
        in
          [''  (polygon '' @ u_silkscreen_top @ '' (layer '' @ ''top_placement'' @ '')'',
           ''   (width '' @ float_str X silk_lw @ '') (fill false) (grab_area false)'',
           ''   (vertex (position -'' @ dx @ '' '' @ dy @ '') (angle 0.0))'',
           ''   (vertex (position '' @ dx @ '' '' @ dy @ '') (angle 0.0))'',
           ''  )'',
           ''  (polygon '' @ u_silkscreen_bot @ '' (layer '' @ ''top_placement'' @ '')'',
           ''   (width '' @ float_str X silk_lw @ '') (fill false) (grab_area false)'',
           ''   (vertex (position -'' @ dx @ '' -'' @ dy @ '') (angle 0.0))'',
           ''   (vertex (position '' @ dx @ '' -'' @ dy @ '') (angle 0.0))'',
           ''  )'']
      else [])\<close>

definition label_lines :: "externals \<Rightarrow> ChipConfig \<Rightarrow> string \<Rightarrow> string \<Rightarrow> string list" where
  \<open>label_lines X config u_text_name u_text_value =
     (let offset = (if width config < 2 then label_offset_thin else label_offset);
          dy = ff X (fadd (fdiv (width config) 2) offset);
          text_attrs = ''(height '' @ float_str X pkg_text_height
            @ '') (stroke_width 0.2) (letter_spacing auto) (line_spacing auto)''
      in
        [''  (stroke_text '' @ u_text_name @ '' (layer top_names)'',
         ''   '' @ text_attrs,
         ''   (align center bottom) (position 0.0 '' @ dy @ '') (rotation 0.0)'',
         ''   (auto_rotate true) (mirror false) (value "{{NAME}}")'',
         ''  )'',
         ''  (stroke_text '' @ u_text_value @ '' (layer top_values)'',
         ''   '' @ text_attrs,
         ''   (align center top) (position 0.0 -'' @ dy @ '') (rotation 0.0)'',
         ''   (auto_rotate true) (mirror false) (value "{{VALUE}}")'',
         ''  )''])\<close>

record variant_ids =
  uuid_footprint :: string
  uuid_text_name :: string
  uuid_text_value :: string
  uuid_silkscreen_top :: string
  uuid_silkscreen_bot :: string
  uuid_outline :: string

definition variant_uuids ::
  "externals \<Rightarrow> string \<Rightarrow> string \<Rightarrow> gen_state \<Rightarrow> variant_ids \<times> gen_state" where
  \<comment> \<open>the six \<^verbatim>\<open>_uuid\<close> calls that open \<^verbatim>\<open>add_footprint_variant\<close>, in their order;
     the record holds the six local variables\<close>
  "variant_uuids X full_name key s0 =
     (let (u_footprint, s1) = uuid_pkg_role X full_name (''footprint-'' @ key) s0;
          (u_text_name, s2) = uuid_pkg_role X full_name (''text-name-'' @ key) s1;
          (u_text_value, s3) = uuid_pkg_role X full_name (''text-value-'' @ key) s2;
          (u_silkscreen_top, s4) =
             uuid_pkg_role X full_name (''line-silkscreen-top-'' @ key) s3;
          (u_silkscreen_bot, s5) =
             uuid_pkg_role X full_name (''line-silkscreen-bot-'' @ key) s4;
          (u_outline, s6) = uuid_pkg_role X full_name (''polygon-outline-'' @ key) s5
      in (\<lparr>uuid_footprint = u_footprint, uuid_text_name = u_text_name,
           uuid_text_value = u_text_value, uuid_silkscreen_top = u_silkscreen_top,
           uuid_silkscreen_bot = u_silkscreen_bot, uuid_outline = u_outline\<rparr>, s6))"

definition add_footprint_variant ::
  "externals \<Rightarrow> ChipConfig \<Rightarrow> string \<Rightarrow> string list \<Rightarrow> string \<Rightarrow> string
     \<Rightarrow> string list \<times> gen_state \<Rightarrow> py_error + string list \<times> gen_state" where
  \<open>add_footprint_variant X config full_name pads key name = (\<lambda>(lines, s0).
     let (ids, s6) = variant_uuids X full_name key s0;
         (silk_lw, doc_lw) = line_widths config
     in
       bind_err (for_each (pad_lines X config pads) [0, 1]) (\<lambda>pad_blocks.
         Inr (lines
              @ ['' (footprint '' @ uuid_footprint ids,
                 ''  (name "'' @ name @ ''")'',
                 ''  (description "")'']
              @ pad_blocks
              @ documentation_lines X config (uuid_outline ids) doc_lw
              @ silkscreen_lines X config (uuid_silkscreen_top ids) (uuid_silkscreen_bot ids)
                  silk_lw
              @ label_lines X config (uuid_text_name ids) (uuid_text_value ids)
              @ ['' )''],
              s6)))\<close>

subsection \<open>generate\_pkg\<close>

text \<open>
  The body of the loop over \<^verbatim>\<open>configs\<close> builds the lines of one package and writes them
  to \<^verbatim>\<open>package.lp\<close> in the directory named by \<^verbatim>\<open>uuid_pkg\<close>. The model returns the pair
  of that identifier and the lines; \<^verbatim>\<open>print\<close> and the creation of directories are left out.
  An exception ends the run, so \<open>Inl\<close> carries no state. \<^verbatim>\<open>config.size_metric()\<close> is
  called twice, for \<^verbatim>\<open>fmt_params\<close> and for the line of keywords; the first call is the
  first statement of the loop body, and the two calls of \<^verbatim>\<open>str.format\<close> on the templates
  \<^verbatim>\<open>name\<close> and \<^verbatim>\<open>description\<close> follow it, so when one of these raises nothing has been
  done for the package.
\<close>

definition fmt_params :: "ChipConfig \<Rightarrow> string \<Rightarrow> (string \<times> py_value) list" where
  \<comment> \<open>the dictionary \<^verbatim>\<open>fmt_params\<close>, given what \<^verbatim>\<open>config.size_metric()\<close> returned\<close>
  "fmt_params config metric =
     [(''size_metric'', Str metric),
      (''size_imperial'', Str (size_imperial config))]"

definition full_name_of ::
  "externals \<Rightarrow> string \<Rightarrow> ChipConfig \<Rightarrow> string \<Rightarrow> py_error + string" where
  \<comment> \<open>\<^verbatim>\<open>full_name = name.format(**fmt_params_name)\<close>\<close>
  "full_name_of X name config metric =
     str_format X name (fmt_params config metric @ [(''height'', Str (fd X (height config)))])"

definition full_desc_of ::
  "externals \<Rightarrow> string \<Rightarrow> ChipConfig \<Rightarrow> string \<Rightarrow> py_error + string" where
  \<comment> \<open>\<^verbatim>\<open>full_desc = description.format(**fmt_params_desc)\<close>\<close>
  "full_desc_of X description config metric =
     str_format X description
       (fmt_params config metric
        @ [(''length'', Float (length_mm config)),
           (''width'', Float (width config)),
           (''height'', Float (height config))])"

record package_ids =
  uuid_pkg :: string
  uuid_pads :: "string list"

definition package_uuids :: "externals \<Rightarrow> string \<Rightarrow> gen_state \<Rightarrow> package_ids \<times> gen_state" where
  \<comment> \<open>\<^verbatim>\<open>uuid_pkg = _uuid('pkg')\<close> and \<^verbatim>\<open>uuid_pads = [_uuid('pad-1'), _uuid('pad-2')]\<close>\<close>
  "package_uuids X full_name s0 =
     (let (u_pkg, s1) = uuid_pkg_role X full_name ''pkg'' s0;
          (u_pad_1, s2) = uuid_pkg_role X full_name ''pad-1'' s1;
          (u_pad_2, s3) = uuid_pkg_role X full_name ''pad-2'' s2
      in (\<lparr>uuid_pkg = u_pkg, uuid_pads = [u_pad_1, u_pad_2]\<rparr>, s3))"

definition general_info_lines ::
  "externals \<Rightarrow> string \<Rightarrow> string \<Rightarrow> string \<Rightarrow> string option \<Rightarrow> ChipConfig
     \<Rightarrow> string \<Rightarrow> string \<Rightarrow> package_ids \<Rightarrow> py_error + string list" where
  \<comment> \<open>the lines appended under \<^verbatim>\<open># General info\<close>\<close>
  \<open>general_info_lines X author pkgcat keywords create_date config
       full_name full_desc ids =
     bind_err (size_metric config) (\<lambda>metric.
     bind_err (py_getitem (uuid_pads ids) 0) (\<lambda>pad0.
     bind_err (py_getitem (uuid_pads ids) 1) (\<lambda>pad1.
       Inr [''(librepcb_package '' @ uuid_pkg ids,
            '' (name "'' @ full_name @ ''")'',
            '' (description "'' @ full_desc @ [CHR 0x5C] @ ''n'' @ [CHR 0x5C]
              @ ''nGenerated with '' @ generator @ ''")'',
            '' (keywords "'' @ metric @ '','' @ size_imperial config @ '',''
              @ keywords @ ''")'',
            '' (author "'' @ author @ ''")'',
            '' (version "0.3")'',
            '' (created '' @ (case create_date of
                                None \<Rightarrow> now X
                              | Some d \<Rightarrow> if d = [] then now X else d) @ '')'',
            '' (deprecated false)'',
            '' (category '' @ pkgcat @ '')'',
            '' (pad '' @ pad0 @ '' (name "1"))'',
            '' (pad '' @ pad1 @ '' (name "2"))''])))\<close>

definition generate_one ::
  "externals \<Rightarrow> string \<Rightarrow> string \<Rightarrow> string \<Rightarrow> string \<Rightarrow> string \<Rightarrow> string option
     \<Rightarrow> ChipConfig \<Rightarrow> gen_state \<Rightarrow> py_error + (string \<times> string list) \<times> gen_state" where
  \<comment> \<open>the body of \<^verbatim>\<open>for config in configs\<close>\<close>
  \<open>generate_one X author name description pkgcat keywords create_date config s0 =
     bind_err (size_metric config) (\<lambda>metric.
     bind_err (full_name_of X name config metric) (\<lambda>full_name.
     bind_err (full_desc_of X description config metric) (\<lambda>full_desc.
      let (ids, s3) = package_uuids X full_name s0
      in
        bind_err
          (general_info_lines X author pkgcat keywords create_date config
             full_name full_desc ids)
          (\<lambda>lines0.
        bind_err
          (add_footprint_variant X config full_name (uuid_pads ids) ''reflow'' ''reflow''
             (lines0, s3))
          (\<lambda>(lines1, s4).
        bind_err
          (add_footprint_variant X config full_name (uuid_pads ids) ''handsoldering''
             ''hand soldering'' (lines1, s4))
          (\<lambda>(lines2, s5). Inr ((uuid_pkg ids, lines2 @ ['')'']), s5)))))))\<close>

fun generate_pkg ::
  "externals \<Rightarrow> string \<Rightarrow> string \<Rightarrow> string \<Rightarrow> ChipConfig list \<Rightarrow> string \<Rightarrow> string
     \<Rightarrow> string option \<Rightarrow> gen_state \<Rightarrow> py_error + (string \<times> string list) list \<times> gen_state" where
  "generate_pkg X author name description [] pkgcat keywords create_date s = Inr ([], s)"
| "generate_pkg X author name description (config # configs) pkgcat keywords create_date s =
     bind_err (generate_one X author name description pkgcat keywords create_date config s)
       (\<lambda>(written, s').
          bind_err (generate_pkg X author name description configs pkgcat keywords create_date s')
            (\<lambda>(rest, s''). Inr (written # rest, s'')))"

subsection \<open>The catalogue of the main block\<close>

definition chip_config ::
  "string \<Rightarrow> real \<Rightarrow> real \<Rightarrow> real \<Rightarrow> real \<Rightarrow> real \<Rightarrow> real \<Rightarrow> ChipConfig" where
  \<comment> \<open>the constructor call \<^verbatim>\<open>ChipConfig(imperial, len, wid, hght, plen, pwid, gap)\<close> on decimal literals\<close>
  "chip_config imperial len wid hght plen pwid gp =
     \<lparr>size_imperial_attr = imperial, length_mm = fl len, width = fl wid, height = fl hght,
      pad_length = fl plen, pad_width = fl pwid, gap = fl gp\<rparr>"

definition main_configs :: "ChipConfig list" where
  "main_configs =
     [chip_config ''01005'' 0.4 0.2 0.15 0.17 0.18 0.2,
      chip_config ''0201'' 0.6 0.3 0.26 0.37 0.29 0.28,
      chip_config ''0402'' 1.0 0.5 0.35 0.6 0.5 0.5,
      chip_config ''0603'' 1.6 0.8 0.55 0.8 0.8 0.8,
      chip_config ''0805'' 2.0 1.25 0.60 0.9 1.2 1.4,
      chip_config ''0805'' 2.0 1.25 0.65 0.9 1.2 1.4,
      chip_config ''0805'' 2.0 1.25 0.70 0.9 1.2 1.4,
      chip_config ''1206'' 3.2 1.6 0.60 1.3 1.5 1.8,
      chip_config ''1206'' 3.2 1.6 0.65 1.3 1.5 1.8,
      chip_config ''1206'' 3.2 1.6 0.70 1.3 1.5 1.8,
      chip_config ''1210'' 3.2 2.55 0.60 1.3 2.4 1.8,
      chip_config ''1210'' 3.2 2.55 0.65 1.3 2.4 1.8,
      chip_config ''1210'' 3.2 2.55 0.70 1.3 2.4 1.8,
      chip_config ''2010'' 5.0 2.5 0.65 1.4 2.4 3.3,
      chip_config ''2010'' 5.0 2.5 0.70 1.4 2.4 3.3,
      chip_config ''2512'' 6.4 3.2 0.65 1.4 3.0 4.6,
      chip_config ''2512'' 6.4 3.2 0.70 1.4 3.0 4.6]"

definition chip_0603 :: ChipConfig where
  "chip_0603 = chip_config ''0603'' 1.6 0.8 0.55 0.8 0.8 0.8"

definition chip_1206 :: ChipConfig where
  "chip_1206 = chip_config ''1206'' 3.2 1.6 0.60 1.3 1.5 1.8"

definition chip_01005 :: ChipConfig where
  "chip_01005 = chip_config ''01005'' 0.4 0.2 0.15 0.17 0.18 0.2"

definition chip_below_tenth :: ChipConfig where
  \<comment> \<open>not in the catalogue: the length is the float next below \<^verbatim>\<open>0.9\<close>\<close>
  "chip_below_tenth = chip_config ''0303'' 0.8999999999999999 0.8 0.3 0.3 0.8 0.3"

definition chip_long :: ChipConfig where
  \<comment> \<open>not in the catalogue: a body of ten millimetres\<close>
  "chip_long = chip_config ''3920'' 10.0 5.0 0.7 1.4 5.0 7.6"

definition chip_huge :: ChipConfig where
  \<comment> \<open>not in the catalogue: the length is the float literal \<^verbatim>\<open>1e308\<close>\<close>
  "chip_huge = chip_config ''0000'' (10 ^ 308) 0.8 0.55 0.8 0.8 0.8"

subsection \<open>The metric size code in the words of the specification\<close>

text \<open>
  For the comparison with \<^verbatim>\<open>size_metric\<close>. A dimension truncated to tenths of a
  millimetre is the number of whole tenths in it, \<open>whole_tenths\<close>, taken of the dimension
  itself and not of a rounded product. A number of tenths is written with two decimal
  digits, the first of them \<^verbatim>\<open>0\<close> below ten; a number that is negative or has more than
  two digits is written as it is.
\<close>

definition whole_tenths :: "real \<Rightarrow> int" where
  "whole_tenths x = int_part (x * 10)"

definition two_digits :: "int \<Rightarrow> string" where
  "two_digits i =
     (if 0 \<le> i \<and> i < 100
      then [''0123456789'' ! nat (i div 10), ''0123456789'' ! nat (i mod 10)]
      else str_int i)"

definition size_metric_in_words :: "ChipConfig \<Rightarrow> string" where
  "size_metric_in_words self =
     two_digits (whole_tenths (length_mm self)) @ two_digits (whole_tenths (width self))"

subsection \<open>Lines that differ in an identifier or a name only\<close>

text \<open>
  For the comparison of the two footprint variants: the lines of a variant that carry one of
  its own identifiers or its name, each given by the text before and the text after that
  identifier or name. Two lines are the same up to an identifier when they are equal, or are
  one of these lines with any two texts in the open place. None of these lines is a line of
  geometry.
\<close>

definition identifier_slots :: "(string \<times> string) list" where
  \<open>identifier_slots =
     [('' (footprint '', []),
      (''  (name "'', ''")''),
      (''  (polygon '', '' (layer top_documentation)''),
      (''  (polygon '', '' (layer top_placement)''),
      (''  (stroke_text '', '' (layer top_names)''),
      (''  (stroke_text '', '' (layer top_values)'')]\<close>

definition same_up_to_identifier :: "string \<Rightarrow> string \<Rightarrow> bool" where
  "same_up_to_identifier a b \<longleftrightarrow>
     a = b \<or> (\<exists>pre post u v. (pre, post) \<in> set identifier_slots
                  \<and> a = pre @ u @ post \<and> b = pre @ v @ post)"

definition geometry_line :: "string \<Rightarrow> bool" where
  \<comment> \<open>the lines of a variant that give a pad, or, indented by three spaces, the attributes
     of an element: positions, sizes, widths, vertices, text attributes\<close>
  "geometry_line l \<longleftrightarrow> prefix ''   '' l \<or> prefix ''  (pad '' l"

subsection \<open>Stand-ins for the parameters in closed examples\<close>

text \<open>
  The examples below need values for the parameters of the model. These stand-ins are used
  for nothing else, and nothing is claimed about the functions they stand for: a float
  is rendered as its number of thousandths (\<open>ff\<close>, \<open>float_str\<close>) or hundredths (\<open>fd\<close>),
  rounded, the \<open>n\<close>-th identifier drawn is \<^verbatim>\<open>uuid4-n\<close>, \<open>str_lower\<close> lowers the letters
  \<^verbatim>\<open>A\<close> to \<^verbatim>\<open>Z\<close>, which is what \<^verbatim>\<open>str.lower\<close> does to a text in ASCII, and
  \<open>str_format\<close> returns the template as it is.
\<close>

definition ascii_lower :: "string \<Rightarrow> string" where
  "ascii_lower s =
     map (\<lambda>c. case map_of (zip ''ABCDEFGHIJKLMNOPQRSTUVWXYZ'' ''abcdefghijklmnopqrstuvwxyz'') c of
                 None \<Rightarrow> c
               | Some l \<Rightarrow> l) s"

definition example_uuid4 :: uuid4_draws where
  "example_uuid4 = Abs_uuid4_draws (\<lambda>n. ''uuid4-'' @ str_nat n)"

definition example_externals :: externals where
  "example_externals =
     \<lparr>ff = (\<lambda>x. str_int (round (x * 1000)) @ ''e-3''),
      fd = (\<lambda>x. str_int (round (x * 100))),
      now = ''2018-12-19T00:08:03Z'',
      uuid4 = example_uuid4,
      str_lower = ascii_lower,
      float_str = (\<lambda>x. str_int (round (x * 1000)) @ ''e-3''),
      str_format = (\<lambda>template params. Inr template)\<rparr>"

definition chip_narrow_gap :: ChipConfig where
  \<comment> \<open>not in the catalogue: the 0603 body with a gap of 0.2 between the pads\<close>
  "chip_narrow_gap = chip_config ''0603'' 1.6 0.8 0.55 0.8 0.8 0.2"

definition empty_state :: gen_state where
  \<comment> \<open>what \<^verbatim>\<open>init_cache\<close> gives when nothing is stored: an empty dictionary\<close>
  "empty_state = \<lparr>uuid_cache = Map.empty, uuid4_calls = 0\<rparr>"

section \<open>Rounding to binary64\<close>

text \<open>
  Rounding is odd, \<open>ilog2\<close> finds the binade of a positive number, and a rounded value is
  a fixed point of rounding: multiplying a float by \<open>1\<close> gives back that float.
\<close>

lemma fl_minus: "fl (- x) = - fl x"
  by (simp add: fl_def ulp_exp_def sgn_minus)

lemma two_powi_pos: "0 < (2::real) powi k"
  by simp

lemma two_powi_less_iff: "(2::real) powi a < 2 powi b \<longleftrightarrow> a < b"
proof
  assume h: "(2::real) powi a < 2 powi b"
  show "a < b"
  proof (rule ccontr)
    assume "\<not> a < b"
    then have "b \<le> a" by simp
    then have "(2::real) powi b \<le> 2 powi a" by (rule power_int_increasing) simp
    with h show False by simp
  qed
next
  assume "a < b"
  then show "(2::real) powi a < 2 powi b" by (rule power_int_strict_increasing) simp
qed

lemma ilog2_bounds:
  assumes "0 < x"
  shows "2 powi (ilog2 x) \<le> x \<and> x < 2 powi (ilog2 x + 1)"
proof (cases "1 \<le> x")
  case True
  define n where "n = \<lfloor>x\<rfloor>"
  have n: "0 < n" using True by (simp add: n_def)
  have bl: "1 \<le> bitlen n" using n by (simp add: bitlen_def floorlog_def)
  have b: "2 ^ nat (bitlen n - 1) \<le> n" "n < 2 ^ nat (bitlen n)"
    using bitlen_bounds [OF n] by auto
  have il: "ilog2 x = bitlen n - 1" using True by (simp add: ilog2_def n_def)
  have p1: "(2::real) powi (bitlen n - 1) = 2 ^ nat (bitlen n - 1)"
    using bl by (simp add: power_int_def)
  have p2: "(2::real) powi (bitlen n - 1 + 1) = 2 ^ nat (bitlen n)"
    using bl by (simp add: power_int_def)
  have "(2::real) ^ nat (bitlen n - 1) \<le> of_int n"
    using b(1) by (metis of_int_le_iff of_int_numeral of_int_power)
  also have "\<dots> \<le> x" by (simp add: n_def)
  finally have lo: "(2::real) ^ nat (bitlen n - 1) \<le> x" .
  have "n + 1 \<le> 2 ^ nat (bitlen n)" using b(2) by simp
  then have "of_int (n + 1) \<le> (2::real) ^ nat (bitlen n)"
    by (metis of_int_le_iff of_int_numeral of_int_power)
  moreover have "x < of_int (n + 1)" by (simp add: n_def)
  ultimately have hi: "x < (2::real) ^ nat (bitlen n)" by linarith
  show ?thesis using lo hi by (simp only: il p1 p2)
next
  case False
  then have x1: "x < 1" by simp
  define y where "y = 1 / x"
  have y1: "1 < y" using assms x1 by (simp add: y_def)
  define m where "m = \<lceil>y\<rceil> - 1"
  have m: "0 < m" using y1 by (simp add: m_def) 
  have bl: "1 \<le> bitlen m" using m by (simp add: bitlen_def floorlog_def)
  have b: "2 ^ nat (bitlen m - 1) \<le> m" "m < 2 ^ nat (bitlen m)"
    using bitlen_bounds [OF m] by auto
  have il: "ilog2 x = - bitlen m" using False by (simp add: ilog2_def m_def y_def)
  have "(2::real) ^ nat (bitlen m - 1) \<le> of_int m"
    using b(1) by (metis of_int_le_iff of_int_numeral of_int_power)
  moreover have "of_int m < y" unfolding m_def by linarith
  ultimately have lo: "(2::real) ^ nat (bitlen m - 1) < y" by linarith
  have "m + 1 \<le> 2 ^ nat (bitlen m)" using b(2) by simp
  then have "of_int (m + 1) \<le> (2::real) ^ nat (bitlen m)"
    by (metis of_int_le_iff of_int_numeral of_int_power)
  moreover have "y \<le> of_int (m + 1)" unfolding m_def by simp
  ultimately have hi: "y \<le> (2::real) ^ nat (bitlen m)" by linarith
  have p1: "(2::real) powi (- bitlen m) = 1 / 2 ^ nat (bitlen m)"
    using bl by (simp add: power_int_def field_simps)
  have p2: "(2::real) powi (- bitlen m + 1) = 1 / 2 ^ nat (bitlen m - 1)"
    using bl by (simp add: power_int_def field_simps nat_diff_distrib')
  have xy: "x = 1 / y" using assms by (simp add: y_def)
  have "1 / 2 ^ nat (bitlen m) \<le> 1 / y"
    using hi y1 by (simp add: frac_le)
  then have lo': "1 / 2 ^ nat (bitlen m) \<le> x" by (simp only: xy)
  have "1 / y < 1 / 2 ^ nat (bitlen m - 1)"
    using lo by (simp add: frac_less2)
  then have hi': "x < 1 / 2 ^ nat (bitlen m - 1)" by (simp only: xy)
  show ?thesis using lo' hi' by (simp only: il p1 p2)
qed


lemma ilog2_unique:
  assumes "0 < x" "2 powi k \<le> x" "x < 2 powi (k + 1)"
  shows "ilog2 x = k"
proof -
  have b: "2 powi (ilog2 x) \<le> x" "x < 2 powi (ilog2 x + 1)"
    using ilog2_bounds [OF assms(1)] by auto
  have "(2::real) powi (ilog2 x) < 2 powi (k + 1)" using b(1) assms(3) by linarith
  then have "ilog2 x < k + 1" by (simp only: two_powi_less_iff)
  moreover have "(2::real) powi k < 2 powi (ilog2 x + 1)" using b(2) assms(2) by linarith
  then have "k < ilog2 x + 1" by (simp only: two_powi_less_iff)
  ultimately show ?thesis by simp
qed

lemma ilog2_less:
  assumes "0 < x" "x < 2 powi k"
  shows "ilog2 x < k"
proof -
  have "2 powi (ilog2 x) \<le> x" using ilog2_bounds [OF assms(1)] by auto
  then have "(2::real) powi (ilog2 x) < 2 powi k" using assms(2) by linarith
  then show ?thesis by (simp only: two_powi_less_iff)
qed

lemma round_half_even_of_int: "round_half_even (of_int m) = m"
  by (simp add: round_half_even_def)

lemma round_half_even_ge:
  assumes "of_int a \<le> q"
  shows "a \<le> round_half_even q"
proof -
  have "a \<le> \<lfloor>q\<rfloor>" using assms by (simp add: le_floor_iff)
  then show ?thesis by (simp add: round_half_even_def)
qed

lemma round_half_even_le:
  assumes "q \<le> of_int b"
  shows "round_half_even q \<le> b"
proof (cases "q = of_int b")
  case True
  then show ?thesis by (simp add: round_half_even_of_int)
next
  case False
  then have "q < of_int b" using assms by simp
  then have "\<lfloor>q\<rfloor> < b" by (simp add: floor_less_iff)
  then show ?thesis by (simp add: round_half_even_def)
qed

lemma two_powi_split: "(2::real) powi E = 2 ^ 52 * 2 powi (E - 52)"
proof -
  have "(2::real) powi (52 + (E - 52)) = 2 powi 52 * 2 powi (E - 52)"
    by (rule power_int_add) simp
  then show ?thesis by simp
qed

lemma two_powi_Suc: "(2::real) powi (E + 1) = 2 * 2 powi E"
  by (simp add: power_int_add)

lemma fl_of_scaled:
  assumes m: "0 < m" "m \<le> 2 ^ 53" and E: "- 1022 \<le> E" "E = - 1022 \<or> 2 ^ 52 \<le> m"
  shows "fl (of_int m * 2 powi (E - 52)) = of_int m * 2 powi (E - 52)"
proof -
  define u :: real where "u = 2 powi (E - 52)"
  define y :: real where "y = of_int m * u"
  have u: "0 < u" by (simp add: u_def)
  have y: "0 < y" using m(1) u by (simp add: y_def)
  have pE: "(2::real) powi E = 2 ^ 52 * u" unfolding u_def by (rule two_powi_split)
  have pE1: "(2::real) powi (E + 1) = 2 ^ 53 * u" by (simp add: two_powi_Suc pE)
  show ?thesis
  proof (cases "m = 2 ^ 53")
    case True
    have yv: "y = 2 powi (E + 1)" by (simp add: y_def True pE1)
    have "ilog2 y = E + 1"
    proof (rule ilog2_unique [OF y])
      show "2 powi (E + 1) \<le> y" by (simp add: yv)
      show "y < 2 powi (E + 1 + 1)" by (simp only: yv two_powi_less_iff)
    qed
    then have ue: "ulp_exp y = E - 51" using y E(1) by (simp add: ulp_exp_def)
    have p: "2 powi (E - 51) = 2 * u"
      using two_powi_Suc [of "E - 52"] by (simp add: u_def algebra_simps)
    have q: "y / 2 powi (E - 51) = of_int (2 ^ 52)"
      using u by (simp add: yv pE1 p)
    have "fl y = of_int (round_half_even (y / 2 powi (E - 51))) * 2 powi (E - 51)"
      using y by (simp add: fl_def ue)
    also have "\<dots> = of_int (2 ^ 52) * (2 * u)"
      by (simp only: q round_half_even_of_int) (simp only: p)
    also have "\<dots> = y" by (simp add: yv pE1)
    finally show ?thesis by (simp add: y_def u_def)
  next
    case False
    then have m53: "m < 2 ^ 53" using m(2) by simp
    then have "of_int m < (2::real) ^ 53"
      by (metis of_int_less_iff of_int_numeral of_int_power)
    then have "y < 2 powi (E + 1)" using u by (simp add: y_def pE1)
    then have up: "ilog2 y < E + 1" by (rule ilog2_less [OF y])
    have "max (ilog2 y) (- 1022) = E"
    proof (cases "2 ^ 52 \<le> m")
      case True
      then have "(2::real) ^ 52 \<le> of_int m"
        by (metis of_int_le_iff of_int_numeral of_int_power)
      then have lo: "2 powi E \<le> y" using u by (simp add: y_def pE)
      have "ilog2 y = E"
        by (rule ilog2_unique [OF y lo]) (fact \<open>y < 2 powi (E + 1)\<close>)
      then show ?thesis using E(1) by simp
    next
      case False
      then have "E = - 1022" using E(2) by simp
      then show ?thesis using up by simp
    qed
    then have ue: "ulp_exp y = E - 52" using y by (simp add: ulp_exp_def)
    have q: "y / 2 powi (E - 52) = of_int m" using u by (simp add: y_def u_def)
    have "fl y = of_int (round_half_even (y / 2 powi (E - 52))) * 2 powi (E - 52)"
      using y by (simp add: fl_def ue)
    also have "\<dots> = of_int m * u"
      by (simp only: q round_half_even_of_int u_def)
    finally show ?thesis by (simp add: y_def u_def)
  qed
qed

lemma fl_idem_pos:
  assumes "0 < x"
  shows "fl (fl x) = fl x"
proof -
  define E where "E = max (ilog2 x) (- 1022)"
  define u :: real where "u = 2 powi (E - 52)"
  define m where "m = round_half_even (x / u)"
  have u: "0 < u" by (simp add: u_def)
  have flx: "fl x = of_int m * u"
    using assms by (simp add: fl_def ulp_exp_def m_def u_def E_def)
  have b: "2 powi (ilog2 x) \<le> x" "x < 2 powi (ilog2 x + 1)"
    using ilog2_bounds [OF assms] by auto
  have pE: "(2::real) powi E = 2 ^ 52 * u" unfolding u_def by (rule two_powi_split)
  have pE1: "(2::real) powi (E + 1) = 2 ^ 53 * u" by (simp add: two_powi_Suc pE)
  have E1: "- 1022 \<le> E" by (simp add: E_def)
  have "(2::real) powi (ilog2 x + 1) \<le> 2 powi (E + 1)"
    by (rule power_int_increasing) (simp_all add: E_def)
  then have "x < 2 ^ 53 * u" using b(2) pE1 by linarith
  then have "x / u \<le> of_int (2 ^ 53)" using u by (simp add: field_simps)
  then have m_le: "m \<le> 2 ^ 53" unfolding m_def by (rule round_half_even_le)
  have "of_int 0 \<le> x / u" using assms u by simp
  then have m_ge: "0 \<le> m" unfolding m_def by (rule round_half_even_ge)
  have m_norm: "E = - 1022 \<or> 2 ^ 52 \<le> m"
  proof (cases "E = - 1022")
    case True
    then show ?thesis by simp
  next
    case False
    then have "E = ilog2 x" by (simp add: E_def max_def split: if_splits)
    then have "2 ^ 52 * u \<le> x" using b(1) pE by simp
    then have "of_int (2 ^ 52) \<le> x / u" using u by (simp add: field_simps)
    then have "2 ^ 52 \<le> m" unfolding m_def by (rule round_half_even_ge)
    then show ?thesis by simp
  qed
  show ?thesis
  proof (cases "m = 0")
    case True
    then have z: "fl x = 0" by (simp add: flx)
    show ?thesis unfolding z by (simp add: fl_def)
  next
    case False
    then have "0 < m" using m_ge by simp
    then show ?thesis
      unfolding flx u_def by (rule fl_of_scaled [OF _ m_le E1 m_norm])
  qed
qed

lemma fl_idem: "fl (fl x) = fl x"
proof (cases "0 < x")
  case True
  then show ?thesis by (rule fl_idem_pos)
next
  case False
  show ?thesis
  proof (cases "x = 0")
    case True
    then show ?thesis by (simp add: fl_def)
  next
    case nz: False
    then have "0 < - x" using False by simp
    then have "fl (fl (- x)) = fl (- x)" by (rule fl_idem_pos)
    then show ?thesis by (simp add: fl_minus)
  qed
qed

section \<open>The lines of a footprint variant\<close>

text \<open>
  With the two pad identifiers in \<^verbatim>\<open>uuid_pads\<close>, \<^verbatim>\<open>add_footprint_variant\<close> raises nothing
  and appends, in this order: three opening lines, the two pad blocks, the documentation
  polygon, the silkscreen block, the labels and the closing line.
\<close>

lemma fmul_one: "fmul 1 (fl x) = fl x"
  by (simp add: fmul_def fl_idem)

lemma fmul_minus_one: "fmul (- 1) (fl x) = - fl x"
  by (simp add: fmul_def fl_minus fl_idem)

lemma pad_lines_0:
  \<open>pad_lines X config [u1, u2] 0 =
     Inr [''  (pad '' @ u2 @ '' (side top) (shape rect)'',
          ''   (position '' @ ff X (fadd (fdiv (gap config) 2) (fdiv (pad_length config) 2))
            @ '' 0) (rotation 0.0) (size '' @ ff X (pad_length config)
            @ '' '' @ ff X (pad_width config) @ '') (drill 0.0)'',
          ''  )'']\<close>
  by (simp add: pad_lines_def py_getitem_def bind_err_def fadd_def fmul_one)

lemma pad_lines_1:
  \<open>pad_lines X config [u1, u2] 1 =
     Inr [''  (pad '' @ u1 @ '' (side top) (shape rect)'',
          ''   (position '' @ ff X (- fadd (fdiv (gap config) 2) (fdiv (pad_length config) 2))
            @ '' 0) (rotation 0.0) (size '' @ ff X (pad_length config)
            @ '' '' @ ff X (pad_width config) @ '') (drill 0.0)'',
          ''  )'']\<close>
  by (simp add: pad_lines_def py_getitem_def bind_err_def fadd_def fmul_minus_one)

lemma for_each_pads:
  \<open>for_each (pad_lines X config [u1, u2]) [0, 1] =
     Inr [''  (pad '' @ u2 @ '' (side top) (shape rect)'',
          ''   (position '' @ ff X (fadd (fdiv (gap config) 2) (fdiv (pad_length config) 2))
            @ '' 0) (rotation 0.0) (size '' @ ff X (pad_length config)
            @ '' '' @ ff X (pad_width config) @ '') (drill 0.0)'',
          ''  )'',
          ''  (pad '' @ u1 @ '' (side top) (shape rect)'',
          ''   (position '' @ ff X (- fadd (fdiv (gap config) 2) (fdiv (pad_length config) 2))
            @ '' 0) (rotation 0.0) (size '' @ ff X (pad_length config)
            @ '' '' @ ff X (pad_width config) @ '') (drill 0.0)'',
          ''  )'']\<close>
  by (simp add: pad_lines_0 pad_lines_1 bind_err_def)

lemma add_footprint_variant_blocks:
  \<open>add_footprint_variant X config full_name [u1, u2] key name (lines, s) =
     Inr (lines
          @ ['' (footprint '' @ uuid_footprint (fst (variant_uuids X full_name key s)),
             ''  (name "'' @ name @ ''")'',
             ''  (description "")'',
             ''  (pad '' @ u2 @ '' (side top) (shape rect)'',
             ''   (position '' @ ff X (fadd (fdiv (gap config) 2) (fdiv (pad_length config) 2))
               @ '' 0) (rotation 0.0) (size '' @ ff X (pad_length config)
               @ '' '' @ ff X (pad_width config) @ '') (drill 0.0)'',
             ''  )'',
             ''  (pad '' @ u1 @ '' (side top) (shape rect)'',
             ''   (position '' @ ff X (- fadd (fdiv (gap config) 2) (fdiv (pad_length config) 2))
               @ '' 0) (rotation 0.0) (size '' @ ff X (pad_length config)
               @ '' '' @ ff X (pad_width config) @ '') (drill 0.0)'',
             ''  )'']
          @ documentation_lines X config (uuid_outline (fst (variant_uuids X full_name key s)))
              (snd (line_widths config))
          @ silkscreen_lines X config
              (uuid_silkscreen_top (fst (variant_uuids X full_name key s)))
              (uuid_silkscreen_bot (fst (variant_uuids X full_name key s)))
              (fst (line_widths config))
          @ label_lines X config (uuid_text_name (fst (variant_uuids X full_name key s)))
              (uuid_text_value (fst (variant_uuids X full_name key s)))
          @ ['' )''],
          snd (variant_uuids X full_name key s))\<close>
  unfolding add_footprint_variant_def for_each_pads
  by (simp add: bind_err_def split_beta)


lemmas fl_eval = fl_def ulp_exp_def ilog2_def round_half_even_def compute_bitlen

lemma no_pad_documentation:
  "filter (prefix ''  (pad '') (documentation_lines X config u w) = []"
  by (simp add: documentation_lines_def Let_def)

lemma no_pad_silkscreen:
  "filter (prefix ''  (pad '') (silkscreen_lines X config u v w) = []"
  by (simp add: silkscreen_lines_def Let_def)

lemma no_pad_labels:
  "filter (prefix ''  (pad '') (label_lines X config u v) = []"
  by (simp add: label_lines_def Let_def)

lemma pad_offset_0603:
  "fadd (fdiv (gap chip_0603) 2) (fdiv (pad_length chip_0603) 2) = fl 0.8"
  by (simp add: chip_0603_def chip_config_def fadd_def fdiv_def fl_eval)

section \<open>Pads\<close>

text \<open>
  C2. Each footprint variant has exactly two pad elements, both \<^verbatim>\<open>(shape rect)\<close>, both of
  size \<^verbatim>\<open>ff(pad_length)\<close> by \<^verbatim>\<open>ff(pad_width)\<close> and at \<open>y = 0\<close>; the first is at
  \<open>x = gap / 2 + pad_length / 2\<close> and the second at the negated value, both in float
  arithmetic. For the 0603 part (gap and pad length \<^verbatim>\<open>0.8\<close>) that value is the float
  \<^verbatim>\<open>0.8\<close>.
\<close>

theorem footprint_variant_two_pads:
  \<open>\<exists>new. add_footprint_variant X config full_name [uuid_pad_1, uuid_pad_2] key name (lines, s)
            = Inr (lines @ new, snd (variant_uuids X full_name key s))
     \<and> filter (prefix ''  (pad '') new
         = [''  (pad '' @ uuid_pad_2 @ '' (side top) (shape rect)'',
            ''  (pad '' @ uuid_pad_1 @ '' (side top) (shape rect)'']
     \<and> take 6 (drop 3 new)
         = [''  (pad '' @ uuid_pad_2 @ '' (side top) (shape rect)'',
            ''   (position '' @ ff X (fadd (fdiv (gap config) 2) (fdiv (pad_length config) 2))
              @ '' 0) (rotation 0.0) (size '' @ ff X (pad_length config)
              @ '' '' @ ff X (pad_width config) @ '') (drill 0.0)'',
            ''  )'',
            ''  (pad '' @ uuid_pad_1 @ '' (side top) (shape rect)'',
            ''   (position '' @ ff X (- fadd (fdiv (gap config) 2) (fdiv (pad_length config) 2))
              @ '' 0) (rotation 0.0) (size '' @ ff X (pad_length config)
              @ '' '' @ ff X (pad_width config) @ '') (drill 0.0)'',
            ''  )'']
     \<and> fadd (fdiv (gap chip_0603) 2) (fdiv (pad_length chip_0603) 2) = fl 0.8\<close>
  unfolding add_footprint_variant_blocks
  by (rule exI, intro conjI, rule refl)
     (simp_all add: no_pad_documentation no_pad_silkscreen no_pad_labels pad_offset_0603)

section \<open>Values of the catalogue in binary64\<close>

lemma length_0603: "length_mm chip_0603 = 3602879701896397 / 2251799813685248"
  by (simp add: chip_0603_def chip_config_def fl_eval)

lemma line_widths_0603: "line_widths chip_0603 = (fl 0.15, fl 0.15)"
  by (simp add: line_widths_def length_0603 line_width_thin_def)

lemma silk_dx_0603:
  "fsub (fsub (fdiv (gap chip_0603) 2) (fdiv (fst (line_widths chip_0603)) 2)) (fl 0.15)
     = 6305039478318695 / 36028797018963968"
  unfolding line_widths_0603
  by (simp add: chip_0603_def chip_config_def fsub_def fdiv_def fl_eval)

lemma silk_dy_0603:
  "fadd (fdiv (width chip_0603) 2) (fdiv (fst (line_widths chip_0603)) 2)
     = 8556839292003943 / 18014398509481984"
  unfolding line_widths_0603
  by (simp add: chip_0603_def chip_config_def fadd_def fdiv_def fl_eval)

lemma fl_0325: "fl 0.325 = 5854679515581645 / 18014398509481984"
  by (simp add: fl_eval)

lemma length_documentation_lines [simp]: "length (documentation_lines X config u w) = 8"
  by (simp add: documentation_lines_def Let_def)

lemma length_label_lines [simp]: "length (label_lines X config u v) = 10"
  by (simp add: label_lines_def Let_def)

lemma half_length_0603: "fdiv (length_mm chip_0603) 2 = fl 0.8"
  by (simp add: chip_0603_def chip_config_def fdiv_def fl_eval)

lemma half_width_0603: "fdiv (width chip_0603) 2 = fl 0.4"
  by (simp add: chip_0603_def chip_config_def fdiv_def fl_eval)

lemma length_01005: "length_mm chip_01005 = 3602879701896397 / 9007199254740992"
  by (simp add: chip_01005_def chip_config_def fl_eval)

lemma length_1206: "length_mm chip_1206 = 3602879701896397 / 1125899906842624"
  by (simp add: chip_1206_def chip_config_def fl_eval)

section \<open>Silkscreen\<close>

text \<open>
  C3 puts the silkscreen half-length of the 0603 part at \<open>0.325\<close>. The source
  computes \<^verbatim>\<open>0.8 / 2 - 0.15 / 2 - 0.15\<close>: \<open>0.325\<close> is what is left after the first
  subtraction, and the result is the float next above \<open>0.175\<close>. With the stand-in for
  \<^verbatim>\<open>ff\<close> the first vertex of the upper segment reads \<^verbatim>\<open>-175e-3 475e-3\<close>.
\<close>

theorem silkscreen_0603_not_0325:
  "fsub (fsub (fdiv (gap chip_0603) 2) (fdiv (fst (line_widths chip_0603)) 2))
      silkscreen_clearance \<noteq> fl 0.325
   \<and> fsub (fsub (fdiv (gap chip_0603) 2) (fdiv (fst (line_widths chip_0603)) 2))
      silkscreen_clearance < 0.176
   \<and> silkscreen_lines example_externals chip_0603 ''top'' ''bot'' (fst (line_widths chip_0603)) ! 2
       = ''   (vertex (position -175e-3 475e-3) (angle 0.0))''"
proof -
  have dx: "fsub (fsub (fdiv (gap chip_0603) 2) (fdiv (fst (line_widths chip_0603)) 2))
      silkscreen_clearance = 6305039478318695 / 36028797018963968"
    using silk_dx_0603 by (simp add: silkscreen_clearance_def)
  have ln: "silkscreen_lines example_externals chip_0603 ''top'' ''bot'' (fst (line_widths chip_0603)) ! 2
       = ''   (vertex (position -175e-3 475e-3) (angle 0.0))''"
    unfolding silkscreen_lines_def Let_def dx silk_dy_0603 length_0603
    by (simp add: example_externals_def round_def str_int_def str_nat.simps)
  show ?thesis unfolding dx fl_0325 using ln by simp
qed


text \<open>
  C3, amended. A footprint variant has its silkscreen block exactly when
  \<open>1 < length\<close>: the lines after the first seventeen are the block, the labels and the
  closing line, and the block is empty otherwise. The block is two polygons on
  \<^verbatim>\<open>top_placement\<close>, each of two vertices at \<open>x = - d\<close> and \<open>x = d\<close> with
  \<open>d = gap / 2 - silk_lw / 2 - 0.15\<close>, the first at \<open>y = width / 2 + silk_lw / 2\<close> and the
  second at the negated \<open>y\<close> (the sign is the character \<^verbatim>\<open>-\<close> before the text of the
  number). For the 0603 part \<open>d\<close> is within \<open>1 / 10 ^ 16\<close> of \<open>0.175\<close>.
\<close>

theorem footprint_variant_silkscreen:
  \<open>\<exists>new. add_footprint_variant X config full_name [uuid_pad_1, uuid_pad_2] key name (lines, s)
            = Inr (lines @ new, snd (variant_uuids X full_name key s))
     \<and> length new = (if 1 < length_mm config then 38 else 28)
     \<and> drop 17 new
         = (if 1 < length_mm config then
              [''  (polygon '' @ uuid_silkscreen_top (fst (variant_uuids X full_name key s))
                 @ '' (layer top_placement)'',
               ''   (width '' @ float_str X (fst (line_widths config))
                 @ '') (fill false) (grab_area false)'',
               ''   (vertex (position -''
                 @ ff X (fsub (fsub (fdiv (gap config) 2) (fdiv (fst (line_widths config)) 2))
                          (fl 0.15))
                 @ '' '' @ ff X (fadd (fdiv (width config) 2) (fdiv (fst (line_widths config)) 2))
                 @ '') (angle 0.0))'',
               ''   (vertex (position ''
                 @ ff X (fsub (fsub (fdiv (gap config) 2) (fdiv (fst (line_widths config)) 2))
                          (fl 0.15))
                 @ '' '' @ ff X (fadd (fdiv (width config) 2) (fdiv (fst (line_widths config)) 2))
                 @ '') (angle 0.0))'',
               ''  )'',
               ''  (polygon '' @ uuid_silkscreen_bot (fst (variant_uuids X full_name key s))
                 @ '' (layer top_placement)'',
               ''   (width '' @ float_str X (fst (line_widths config))
                 @ '') (fill false) (grab_area false)'',
               ''   (vertex (position -''
                 @ ff X (fsub (fsub (fdiv (gap config) 2) (fdiv (fst (line_widths config)) 2))
                          (fl 0.15))
                 @ '' -'' @ ff X (fadd (fdiv (width config) 2) (fdiv (fst (line_widths config)) 2))
                 @ '') (angle 0.0))'',
               ''   (vertex (position ''
                 @ ff X (fsub (fsub (fdiv (gap config) 2) (fdiv (fst (line_widths config)) 2))
                          (fl 0.15))
                 @ '' -'' @ ff X (fadd (fdiv (width config) 2) (fdiv (fst (line_widths config)) 2))
                 @ '') (angle 0.0))'',
               ''  )'']
            else [])
           @ label_lines X config (uuid_text_name (fst (variant_uuids X full_name key s)))
               (uuid_text_value (fst (variant_uuids X full_name key s)))
           @ ['' )'']
     \<and> 1 < length_mm chip_0603
     \<and> fst (line_widths chip_0603) = fl 0.15
     \<and> fsub (fsub (fdiv (gap chip_0603) 2) (fdiv (fst (line_widths chip_0603)) 2)) (fl 0.15)
         = 6305039478318695 / 36028797018963968
     \<and> \<bar>6305039478318695 / 36028797018963968 - 0.175\<bar> < (1 / 10 ^ 16 :: real)\<close>
proof (rule exI, intro conjI)
  show "1 < length_mm chip_0603" by (simp add: length_0603)
  show "fst (line_widths chip_0603) = fl 0.15" by (simp add: line_widths_0603)
  show "fsub (fsub (fdiv (gap chip_0603) 2) (fdiv (fst (line_widths chip_0603)) 2)) (fl 0.15)
         = 6305039478318695 / 36028797018963968" by (rule silk_dx_0603)
  show "\<bar>6305039478318695 / 36028797018963968 - 0.175\<bar> < (1 / 10 ^ 16 :: real)" by simp
qed (rule add_footprint_variant_blocks, simp_all add: silkscreen_lines_def Let_def
       silkscreen_clearance_def)


section \<open>No clipping of the silkscreen half-length\<close>

lemma length_narrow_gap: "length_mm chip_narrow_gap = 3602879701896397 / 2251799813685248"
  by (simp add: chip_narrow_gap_def chip_config_def fl_eval)

lemma line_widths_narrow_gap: "line_widths chip_narrow_gap = (fl 0.15, fl 0.15)"
  by (simp add: line_widths_def length_narrow_gap line_width_thin_def)

lemma silk_dx_narrow_gap:
  "fsub (fsub (fdiv (gap chip_narrow_gap) 2) (fdiv (fst (line_widths chip_narrow_gap)) 2))
      (fl 0.15)
     = - (9007199254740991 / 72057594037927936)"
  unfolding line_widths_narrow_gap
  by (simp add: chip_narrow_gap_def chip_config_def fsub_def fdiv_def fl_eval)

lemma silk_dy_narrow_gap:
  "fadd (fdiv (width chip_narrow_gap) 2) (fdiv (fst (line_widths chip_narrow_gap)) 2)
     = 8556839292003943 / 18014398509481984"
  unfolding line_widths_narrow_gap
  by (simp add: chip_narrow_gap_def chip_config_def fadd_def fdiv_def fl_eval)

text \<open>
  C6 says that a negative silkscreen half-length is clipped. The source has no clipping and
  no check of the half-length. For the 0603 body
  with a gap of \<open>0.2\<close> the half-length is about \<open>- 0.125\<close>, it goes to \<^verbatim>\<open>ff\<close> as it is,
  and the vertex that should be on the left gets a second minus sign from the format string.
\<close>

theorem silkscreen_negative_half_length_emitted:
  \<open>1 < length_mm chip_narrow_gap
   \<and> fsub (fsub (fdiv (gap chip_narrow_gap) 2) (fdiv (fst (line_widths chip_narrow_gap)) 2))
        silkscreen_clearance = - (9007199254740991 / 72057594037927936)
   \<and> map_sum id (\<lambda>r. take 2 (drop 19 (fst r)))
         (add_footprint_variant example_externals chip_narrow_gap ''RESC1608X55 (0603)''
            [''pad-a'', ''pad-b''] ''reflow'' ''reflow'' ([], empty_state))
       = Inr [''   (vertex (position --125e-3 475e-3) (angle 0.0))'',
              ''   (vertex (position -125e-3 475e-3) (angle 0.0))'']\<close>
proof -
  have l: "1 < length_mm chip_narrow_gap" by (simp add: length_narrow_gap)
  have dx: "fsub (fsub (fdiv (gap chip_narrow_gap) 2)
      (fdiv (fst (line_widths chip_narrow_gap)) 2)) silkscreen_clearance
      = - (9007199254740991 / 72057594037927936)"
    using silk_dx_narrow_gap by (simp add: silkscreen_clearance_def)
  have sl: "silkscreen_lines example_externals chip_narrow_gap u v
      (fst (line_widths chip_narrow_gap))
    = [''  (polygon '' @ u @ '' (layer top_placement)'',
       ''   (width 150e-3) (fill false) (grab_area false)'',
       ''   (vertex (position --125e-3 475e-3) (angle 0.0))'',
       ''   (vertex (position -125e-3 475e-3) (angle 0.0))'',
       ''  )'',
       ''  (polygon '' @ v @ '' (layer top_placement)'',
       ''   (width 150e-3) (fill false) (grab_area false)'',
       ''   (vertex (position --125e-3 -475e-3) (angle 0.0))'',
       ''   (vertex (position -125e-3 -475e-3) (angle 0.0))'',
       ''  )'']" for u v
    unfolding silkscreen_lines_def Let_def dx silk_dy_narrow_gap
    by (simp add: l line_widths_narrow_gap example_externals_def round_def str_int_def
          str_nat.simps fl_eval)
  have "map_sum id (\<lambda>r. take 2 (drop 19 (fst r)))
         (add_footprint_variant example_externals chip_narrow_gap ''RESC1608X55 (0603)''
            [''pad-a'', ''pad-b''] ''reflow'' ''reflow'' ([], empty_state))
       = Inr [''   (vertex (position --125e-3 475e-3) (angle 0.0))'',
              ''   (vertex (position -125e-3 475e-3) (angle 0.0))'']"
    unfolding add_footprint_variant_blocks sl
    by (simp add: documentation_lines_def Let_def)
  then show ?thesis using l dx by blast
qed

text \<open>
  C6, amended. For every ChipConfig with \<open>1 < length\<close> the four silkscreen vertex lines carry
  the text of \<open>gap / 2 - silk_lw / 2 - 0.15\<close> as it was computed, whatever its sign.
\<close>

theorem silkscreen_half_length_not_clipped:
  assumes "1 < length_mm config"
  shows \<open>\<exists>new. add_footprint_variant X config full_name [uuid_pad_1, uuid_pad_2] key name
                (lines, s)
              = Inr (lines @ new, snd (variant_uuids X full_name key s))
       \<and> new ! 19 = ''   (vertex (position -''
            @ ff X (fsub (fsub (fdiv (gap config) 2) (fdiv (fst (line_widths config)) 2))
                     (fl 0.15))
            @ '' '' @ ff X (fadd (fdiv (width config) 2) (fdiv (fst (line_widths config)) 2))
            @ '') (angle 0.0))''
       \<and> new ! 20 = ''   (vertex (position ''
            @ ff X (fsub (fsub (fdiv (gap config) 2) (fdiv (fst (line_widths config)) 2))
                     (fl 0.15))
            @ '' '' @ ff X (fadd (fdiv (width config) 2) (fdiv (fst (line_widths config)) 2))
            @ '') (angle 0.0))''
       \<and> new ! 24 = ''   (vertex (position -''
            @ ff X (fsub (fsub (fdiv (gap config) 2) (fdiv (fst (line_widths config)) 2))
                     (fl 0.15))
            @ '' -'' @ ff X (fadd (fdiv (width config) 2) (fdiv (fst (line_widths config)) 2))
            @ '') (angle 0.0))''
       \<and> new ! 25 = ''   (vertex (position ''
            @ ff X (fsub (fsub (fdiv (gap config) 2) (fdiv (fst (line_widths config)) 2))
                     (fl 0.15))
            @ '' -'' @ ff X (fadd (fdiv (width config) 2) (fdiv (fst (line_widths config)) 2))
            @ '') (angle 0.0))''\<close>
  by (rule exI, intro conjI, rule add_footprint_variant_blocks)
     (simp_all add: assms documentation_lines_def silkscreen_lines_def Let_def nth_append
        silkscreen_clearance_def)

theorem silkscreen_half_length_not_clipped_witness:
  \<open>1 < length_mm chip_narrow_gap
   \<and> fsub (fsub (fdiv (gap chip_narrow_gap) 2) (fdiv (fst (line_widths chip_narrow_gap)) 2))
        (fl 0.15) < 0
   \<and> (\<exists>new. add_footprint_variant example_externals chip_narrow_gap ''RESC1608X55 (0603)''
                [''pad-a'', ''pad-b''] ''reflow'' ''reflow'' ([], empty_state)
              = Inr ([] @ new,
                  snd (variant_uuids example_externals ''RESC1608X55 (0603)'' ''reflow''
                         empty_state))
         \<and> new ! 19 = ''   (vertex (position --125e-3 475e-3) (angle 0.0))''
         \<and> new ! 20 = ''   (vertex (position -125e-3 475e-3) (angle 0.0))'')\<close>
proof -
  have l: "1 < length_mm chip_narrow_gap" by (simp add: length_narrow_gap)
  have ffx: "ff example_externals (fsub (fsub (fdiv (gap chip_narrow_gap) 2)
      (fdiv (fst (line_widths chip_narrow_gap)) 2)) (fl 0.15)) = ''-125e-3''"
    unfolding silk_dx_narrow_gap
    by (simp add: example_externals_def round_def str_int_def str_nat.simps)
  have ffy: "ff example_externals (fadd (fdiv (width chip_narrow_gap) 2)
      (fdiv (fst (line_widths chip_narrow_gap)) 2)) = ''475e-3''"
    unfolding silk_dy_narrow_gap
    by (simp add: example_externals_def round_def str_int_def str_nat.simps)
  from silkscreen_half_length_not_clipped [OF l, of example_externals
      "''RESC1608X55 (0603)''" "''pad-a''" "''pad-b''" "''reflow''" "''reflow''" "[]"
      empty_state]
  obtain new where
    n: "add_footprint_variant example_externals chip_narrow_gap ''RESC1608X55 (0603)''
          [''pad-a'', ''pad-b''] ''reflow'' ''reflow'' ([], empty_state)
        = Inr ([] @ new,
            snd (variant_uuids example_externals ''RESC1608X55 (0603)'' ''reflow'' empty_state))"
    and a: "new ! 19 = ''   (vertex (position -''
            @ ff example_externals (fsub (fsub (fdiv (gap chip_narrow_gap) 2)
                (fdiv (fst (line_widths chip_narrow_gap)) 2)) (fl 0.15))
            @ '' '' @ ff example_externals (fadd (fdiv (width chip_narrow_gap) 2)
                (fdiv (fst (line_widths chip_narrow_gap)) 2))
            @ '') (angle 0.0))''"
    and b: "new ! 20 = ''   (vertex (position ''
            @ ff example_externals (fsub (fsub (fdiv (gap chip_narrow_gap) 2)
                (fdiv (fst (line_widths chip_narrow_gap)) 2)) (fl 0.15))
            @ '' '' @ ff example_externals (fadd (fdiv (width chip_narrow_gap) 2)
                (fdiv (fst (line_widths chip_narrow_gap)) 2))
            @ '') (angle 0.0))''"
    by blast
  have a': "new ! 19 = ''   (vertex (position --125e-3 475e-3) (angle 0.0))''"
    unfolding a ffx ffy by simp
  have b': "new ! 20 = ''   (vertex (position -125e-3 475e-3) (angle 0.0))''"
    unfolding b ffx ffy by simp
  have neg: "fsub (fsub (fdiv (gap chip_narrow_gap) 2)
      (fdiv (fst (line_widths chip_narrow_gap)) 2)) (fl 0.15) < 0"
    unfolding silk_dx_narrow_gap by simp
  show ?thesis using l neg n a' b' by blast
qed

section \<open>Documentation outline\<close>

text \<open>
  C5. The documentation polygon of a footprint variant has exactly five vertex lines, all
  with \<^verbatim>\<open>(angle 0.0)\<close>: \<open>(- hw, hl)\<close>, \<open>(hw, hl)\<close>, \<open>(hw, - hl)\<close>, \<open>(- hw, - hl)\<close> and
  \<open>(- hw, hl)\<close> again, where \<open>hw\<close> is the text of \<open>length / 2\<close> and \<open>hl\<close> the text of
  \<open>width / 2\<close> (a negative coordinate is the character \<^verbatim>\<open>-\<close> before the text). The fifth
  vertex line is the first one. For the 0603 part the halves are the floats \<^verbatim>\<open>0.8\<close> and
  \<^verbatim>\<open>0.4\<close>.
\<close>

theorem footprint_variant_outline:
  \<open>\<exists>new. add_footprint_variant X config full_name [uuid_pad_1, uuid_pad_2] key name (lines, s)
            = Inr (lines @ new, snd (variant_uuids X full_name key s))
     \<and> take 8 (drop 9 new)
         = [''  (polygon '' @ uuid_outline (fst (variant_uuids X full_name key s))
              @ '' (layer top_documentation)'',
            ''   (width '' @ float_str X (snd (line_widths config))
              @ '') (fill false) (grab_area true)'',
            ''   (vertex (position -'' @ ff X (fdiv (length_mm config) 2)
              @ '' '' @ ff X (fdiv (width config) 2) @ '') (angle 0.0))'',
            ''   (vertex (position '' @ ff X (fdiv (length_mm config) 2)
              @ '' '' @ ff X (fdiv (width config) 2) @ '') (angle 0.0))'',
            ''   (vertex (position '' @ ff X (fdiv (length_mm config) 2)
              @ '' -'' @ ff X (fdiv (width config) 2) @ '') (angle 0.0))'',
            ''   (vertex (position -'' @ ff X (fdiv (length_mm config) 2)
              @ '' -'' @ ff X (fdiv (width config) 2) @ '') (angle 0.0))'',
            ''   (vertex (position -'' @ ff X (fdiv (length_mm config) 2)
              @ '' '' @ ff X (fdiv (width config) 2) @ '') (angle 0.0))'',
            ''  )'']
     \<and> new ! 15 = new ! 11
     \<and> fdiv (length_mm chip_0603) 2 = fl 0.8
     \<and> fdiv (width chip_0603) 2 = fl 0.4\<close>
proof (rule exI, intro conjI)
  show "fdiv (length_mm chip_0603) 2 = fl 0.8" by (rule half_length_0603)
  show "fdiv (width chip_0603) 2 = fl 0.4" by (rule half_width_0603)
qed (rule add_footprint_variant_blocks, simp_all add: documentation_lines_def Let_def)

section \<open>Stroke widths\<close>

text \<open>
  C4. The pair of the silkscreen and the outline stroke width is \<open>(0.25, 0.25)\<close> from
  length \<open>2.0\<close> on, \<open>(0.15, 0.15)\<close> from \<open>1.0\<close> up to \<open>2.0\<close>, and \<open>(0.15, 0.1)\<close> below
  \<open>1.0\<close>; the outline width is the one written into the documentation polygon, the
  silkscreen width the one written into both silkscreen polygons.
\<close>

theorem stroke_width_tiers:
  \<open>(2 \<le> length_mm config \<longrightarrow> line_widths config = (fl 0.25, fl 0.25))
   \<and> (1 \<le> length_mm config \<and> length_mm config < 2
        \<longrightarrow> line_widths config = (fl 0.15, fl 0.15))
   \<and> (length_mm config < 1 \<longrightarrow> line_widths config = (fl 0.15, fl 0.1))
   \<and> (\<exists>new. add_footprint_variant X config full_name [uuid_pad_1, uuid_pad_2] key name
                 (lines, s)
               = Inr (lines @ new, snd (variant_uuids X full_name key s))
        \<and> new ! 10 = ''   (width '' @ float_str X (snd (line_widths config))
                        @ '') (fill false) (grab_area true)''
        \<and> (1 < length_mm config \<longrightarrow>
             new ! 18 = ''   (width '' @ float_str X (fst (line_widths config))
                          @ '') (fill false) (grab_area false)''
             \<and> new ! 23 = ''   (width '' @ float_str X (fst (line_widths config))
                          @ '') (fill false) (grab_area false)''))\<close>
proof (intro conjI)
  show "2 \<le> length_mm config \<longrightarrow> line_widths config = (fl 0.25, fl 0.25)"
    by (simp add: line_widths_def line_width_def)
  show "1 \<le> length_mm config \<and> length_mm config < 2
        \<longrightarrow> line_widths config = (fl 0.15, fl 0.15)"
    by (simp add: line_widths_def line_width_thin_def)
  show "length_mm config < 1 \<longrightarrow> line_widths config = (fl 0.15, fl 0.1)"
    by (simp add: line_widths_def line_width_thin_def line_width_thinner_def)
  show \<open>\<exists>new. add_footprint_variant X config full_name [uuid_pad_1, uuid_pad_2] key name
                 (lines, s)
               = Inr (lines @ new, snd (variant_uuids X full_name key s))
        \<and> new ! 10 = ''   (width '' @ float_str X (snd (line_widths config))
                        @ '') (fill false) (grab_area true)''
        \<and> (1 < length_mm config \<longrightarrow>
             new ! 18 = ''   (width '' @ float_str X (fst (line_widths config))
                          @ '') (fill false) (grab_area false)''
             \<and> new ! 23 = ''   (width '' @ float_str X (fst (line_widths config))
                          @ '') (fill false) (grab_area false)'')\<close>
    by (rule exI, intro conjI, rule add_footprint_variant_blocks)
       (simp_all add: documentation_lines_def silkscreen_lines_def Let_def nth_append)
qed

theorem stroke_width_tiers_witness:
  \<open>2 \<le> length_mm chip_1206 \<and> line_widths chip_1206 = (fl 0.25, fl 0.25)
   \<and> 1 \<le> length_mm chip_0603 \<and> length_mm chip_0603 < 2
   \<and> line_widths chip_0603 = (fl 0.15, fl 0.15)
   \<and> length_mm chip_01005 < 1 \<and> line_widths chip_01005 = (fl 0.15, fl 0.1)
   \<and> 1 < length_mm chip_0603
   \<and> (\<exists>new. add_footprint_variant example_externals chip_0603 ''RESC1608X55 (0603)''
                [''pad-a'', ''pad-b''] ''reflow'' ''reflow'' ([], empty_state)
              = Inr ([] @ new,
                  snd (variant_uuids example_externals ''RESC1608X55 (0603)'' ''reflow''
                         empty_state))
         \<and> new ! 10 = ''   (width 150e-3) (fill false) (grab_area true)''
         \<and> new ! 18 = ''   (width 150e-3) (fill false) (grab_area false)''
         \<and> new ! 23 = ''   (width 150e-3) (fill false) (grab_area false)'')\<close>
proof -
  have a: "2 \<le> length_mm chip_1206" by (simp add: length_1206)
  have b: "1 \<le> length_mm chip_0603 \<and> length_mm chip_0603 < 2" by (simp add: length_0603)
  have c: "length_mm chip_01005 < 1" by (simp add: length_01005)
  have d: "1 < length_mm chip_0603" by (simp add: length_0603)
  have w: "float_str example_externals (fl 0.15) = ''150e-3''"
    by (simp add: example_externals_def round_def str_int_def str_nat.simps fl_eval)
  have t1: "line_widths chip_1206 = (fl 0.25, fl 0.25)"
    using stroke_width_tiers [THEN conjunct1, of chip_1206] a by blast
  have t2: "line_widths chip_0603 = (fl 0.15, fl 0.15)"
    using stroke_width_tiers [THEN conjunct2, THEN conjunct1, of chip_0603] b by blast
  have t3: "line_widths chip_01005 = (fl 0.15, fl 0.1)"
    using stroke_width_tiers [THEN conjunct2, THEN conjunct2, THEN conjunct1, of chip_01005] c
    by blast
  from stroke_width_tiers [THEN conjunct2, THEN conjunct2, THEN conjunct2,
      of example_externals chip_0603 "''RESC1608X55 (0603)''" "''pad-a''" "''pad-b''"
        "''reflow''" "''reflow''" "[]" empty_state]
  obtain new where
    n: "add_footprint_variant example_externals chip_0603 ''RESC1608X55 (0603)''
          [''pad-a'', ''pad-b''] ''reflow'' ''reflow'' ([], empty_state)
        = Inr ([] @ new,
            snd (variant_uuids example_externals ''RESC1608X55 (0603)'' ''reflow'' empty_state))"
    and n10: "new ! 10 = ''   (width '' @ float_str example_externals (snd (line_widths chip_0603))
                        @ '') (fill false) (grab_area true)''"
    and n18: "1 < length_mm chip_0603 \<longrightarrow>
             new ! 18 = ''   (width '' @ float_str example_externals (fst (line_widths chip_0603))
                          @ '') (fill false) (grab_area false)''
             \<and> new ! 23 = ''   (width '' @ float_str example_externals (fst (line_widths chip_0603))
                          @ '') (fill false) (grab_area false)''"
    by blast
  have e10: "new ! 10 = ''   (width 150e-3) (fill false) (grab_area true)''"
    unfolding n10 t2 snd_conv w by simp
  have e18: "new ! 18 = ''   (width 150e-3) (fill false) (grab_area false)''"
    using n18 d unfolding t2 fst_conv w by simp
  have e23: "new ! 23 = ''   (width 150e-3) (fill false) (grab_area false)''"
    using n18 d unfolding t2 fst_conv w by simp
  show ?thesis using a b c d t1 t2 t3 n e10 e18 e23 by blast
qed

section \<open>Integers as text\<close>

lemma str_nat_nonempty: "str_nat n \<noteq> []"
  by (subst str_nat.simps) simp

lemma digit_char_inj:
  assumes "a < 10" "b < 10" "''0123456789'' ! a = ''0123456789'' ! b"
  shows "a = b"
proof -
  have "distinct ''0123456789''" by simp
  moreover have "a < length ''0123456789''" "b < length ''0123456789''" using assms by simp_all
  ultimately show ?thesis using assms(3) by (simp only: nth_eq_iff_index_eq)
qed

lemma str_nat_inj: "str_nat m = str_nat n \<Longrightarrow> m = n"
proof (induction m arbitrary: n rule: str_nat.induct)
  case (1 m)
  show ?case
  proof (cases "m < 10")
    case m: True
    then have sm: "str_nat m = [''0123456789'' ! m]" by (subst str_nat.simps) simp
    show ?thesis
    proof (cases "n < 10")
      case True
      then have "str_nat n = [''0123456789'' ! n]" by (subst str_nat.simps) simp
      then show ?thesis using "1.prems" sm m True by (auto intro: digit_char_inj)
    next
      case False
      then have "str_nat n = str_nat (n div 10) @ [''0123456789'' ! (n mod 10)]"
        by (subst str_nat.simps) simp
      then have "str_nat (n div 10) = []" using "1.prems" sm by simp
      then show ?thesis using str_nat_nonempty by blast
    qed
  next
    case m: False
    then have sm: "str_nat m = str_nat (m div 10) @ [''0123456789'' ! (m mod 10)]"
      by (subst str_nat.simps) simp
    show ?thesis
    proof (cases "n < 10")
      case True
      then have "str_nat n = [''0123456789'' ! n]" by (subst str_nat.simps) simp
      then have "str_nat (m div 10) = []" using "1.prems" sm by simp
      then show ?thesis using str_nat_nonempty by blast
    next
      case False
      then have sn: "str_nat n = str_nat (n div 10) @ [''0123456789'' ! (n mod 10)]"
        by (subst str_nat.simps) simp
      from "1.prems" sm sn
      have e: "str_nat (m div 10) = str_nat (n div 10)"
        and d: "''0123456789'' ! (m mod 10) = ''0123456789'' ! (n mod 10)"
        by simp_all
      have "m div 10 = n div 10" using "1.IH" [OF m e] .
      moreover have "m mod 10 = n mod 10" by (rule digit_char_inj [OF _ _ d]) simp_all
      ultimately show ?thesis by (metis div_mult_mod_eq)
    qed
  qed
qed

lemma rjust_two_digits: "rjust 2 (CHR ''0'') (str_int i) = two_digits i"
proof (cases "i < 0")
  case True
  then have "str_int i = CHR ''-'' # str_nat (nat (- i))" by (simp add: str_int_def)
  moreover have "1 \<le> length (str_nat (nat (- i)))"
    using str_nat_nonempty [of "nat (- i)"] by (cases "str_nat (nat (- i))") simp_all
  ultimately show ?thesis using True by (simp add: rjust_def two_digits_def)
next
  case False
  define n where "n = nat i"
  have i: "i = int n" using False by (simp add: n_def)
  have si: "str_int (int n) = str_nat n" by (simp add: str_int_def)
  have dv: "nat (int n div 10) = n div 10" "nat (int n mod 10) = n mod 10"
    by (simp_all add: nat_div_distrib nat_mod_distrib)
  consider "n < 10" | "10 \<le> n" "n < 100" | "100 \<le> n" by linarith
  then have "rjust 2 (CHR ''0'') (str_int (int n)) = two_digits (int n)"
  proof cases
    case 1
    then have "str_nat n = [''0123456789'' ! n]" by (subst str_nat.simps) simp
    then show ?thesis using 1 by (simp add: si rjust_def two_digits_def dv)
  next
    case 2
    then have d: "n div 10 < 10" by simp
    have "str_nat n = str_nat (n div 10) @ [''0123456789'' ! (n mod 10)]"
      using 2 by (subst str_nat.simps) simp
    also have "str_nat (n div 10) = [''0123456789'' ! (n div 10)]"
      using d by (subst str_nat.simps) simp
    finally show ?thesis using 2 by (simp add: si rjust_def two_digits_def dv)
  next
    case 3
    have "str_nat n = str_nat (n div 10) @ [''0123456789'' ! (n mod 10)]"
      using 3 by (subst str_nat.simps) simp
    moreover have "1 \<le> length (str_nat (n div 10))"
      using str_nat_nonempty [of "n div 10"] by (cases "str_nat (n div 10)") simp_all
    ultimately have "2 \<le> length (str_nat n)" by simp
    then show ?thesis using 3 by (simp add: si rjust_def two_digits_def)
  qed
  then show ?thesis unfolding i .
qed

lemma draw_inj: "draw u m = draw u n \<longleftrightarrow> m = n"
  using draw [of u] by (simp add: inj_eq)

lemma draw_example_uuid4: "draw example_uuid4 n = ''uuid4-'' @ str_nat n"
proof -
  have "inj (\<lambda>n. ''uuid4-'' @ str_nat n)" by (rule injI) (simp add: str_nat_inj)
  then show ?thesis by (simp add: example_uuid4_def Abs_uuid4_draws_inverse)
qed

section \<open>The metric size code\<close>

lemma round_half_even_nonneg: "0 \<le> q \<Longrightarrow> 0 \<le> round_half_even q"
  using round_half_even_ge [of 0 q] by simp

lemma fl_nonneg:
  assumes "0 \<le> x"
  shows "0 \<le> fl x"
proof (cases "x = 0")
  case True
  then show ?thesis by (simp add: fl_def)
next
  case False
  then have x: "0 < x" using assms by simp
  have "0 \<le> \<bar>x\<bar> / 2 powi ulp_exp x" by simp
  then have "0 \<le> round_half_even (\<bar>x\<bar> / 2 powi ulp_exp x)"
    by (rule round_half_even_nonneg)
  then show ?thesis using x by (simp add: fl_def)
qed

text \<open>
  Rounding does not cross a whole number: a positive number below \<open>2 ^ 53\<close> that lies
  between two integers is rounded to a float between them.
\<close>

lemma fl_between_ints:
  assumes "0 < y" "y < 2 ^ 53" "of_int a \<le> y" "y \<le> of_int b"
  shows "of_int a \<le> fl y \<and> fl y \<le> of_int b"
proof -
  define E where "E = max (ilog2 y) (- 1022)"
  have "y < 2 powi 53" using assms(2) by simp
  then have "ilog2 y < 53" using assms(1) by (rule ilog2_less [rotated])
  then have E: "E \<le> 52" by (simp add: E_def)
  define k where "k = nat (52 - E)"
  have ek: "E - 52 = - int k" using E by (simp add: k_def)
  have u: "(2::real) powi (E - 52) = 1 / 2 ^ k"
    unfolding ek by (simp add: power_int_minus field_simps)
  have f: "fl y = of_int (round_half_even (y * 2 ^ k)) / 2 ^ k"
    using assms(1) by (simp add: fl_def ulp_exp_def E_def [symmetric] u)
  have "of_int (a * 2 ^ k) \<le> y * 2 ^ k" using assms(3) by simp
  then have "a * 2 ^ k \<le> round_half_even (y * 2 ^ k)" by (rule round_half_even_ge)
  then have "(of_int (a * 2 ^ k) :: real) \<le> of_int (round_half_even (y * 2 ^ k))"
    by (simp only: of_int_le_iff)
  then have lo: "of_int a \<le> fl y" unfolding f by (simp add: field_simps)
  have "y * 2 ^ k \<le> of_int (b * 2 ^ k)" using assms(4) by simp
  then have "round_half_even (y * 2 ^ k) \<le> b * 2 ^ k" by (rule round_half_even_le)
  then have "(of_int (round_half_even (y * 2 ^ k)) :: real) \<le> of_int (b * 2 ^ k)"
    by (simp only: of_int_le_iff)
  then have hi: "fl y \<le> of_int b" unfolding f by (simp add: field_simps)
  show ?thesis using lo hi by simp
qed

text \<open>Rounding does not go below a power of two that the number has reached.\<close>

lemma fl_ge_two_powi:
  assumes "2 powi e \<le> y" "- 1022 \<le> e"
  shows "2 powi e \<le> fl y"
proof -
  have y: "0 < y" using assms(1) two_powi_pos [of e] by linarith
  define E where "E = ilog2 y"
  have "2 powi e < (2::real) powi (E + 1)"
    using ilog2_bounds [OF y] assms(1) unfolding E_def by linarith
  then have eE: "e \<le> E" by (simp add: two_powi_less_iff)
  then have m: "max (ilog2 y) (- 1022) = E" using assms(2) by (simp add: E_def)
  have "2 powi E \<le> y" using ilog2_bounds [OF y] by (simp add: E_def)
  then have "of_int (2 ^ 52) * 2 powi (E - 52) \<le> y" using two_powi_split [of E] by simp
  then have "of_int (2 ^ 52) \<le> y / 2 powi (E - 52)"
    by (simp add: pos_le_divide_eq)
  then have "2 ^ 52 \<le> round_half_even (y / 2 powi (E - 52))" by (rule round_half_even_ge)
  then have "(of_int (2 ^ 52) :: real) \<le> of_int (round_half_even (y / 2 powi (E - 52)))"
    by (simp only: of_int_le_iff)
  then have "of_int (2 ^ 52) * 2 powi (E - 52)
      \<le> (of_int (round_half_even (y / 2 powi (E - 52))) :: real) * 2 powi (E - 52)"
    by (intro mult_right_mono) simp_all
  then have "2 powi E \<le> fl y"
    using y two_powi_split [of E] by (simp add: fl_def ulp_exp_def m)
  moreover have "(2::real) powi e \<le> 2 powi E" using eE by (simp add: power_int_increasing)
  ultimately show ?thesis by linarith
qed

lemma size_metric_cases:
  "size_metric self =
     (if float_overflow (fmul (length_mm self) 10) \<or> float_overflow (fmul (width self) 10)
      then Inl OverflowError
      else Inr (two_digits (int_part (fmul (length_mm self) 10))
                @ two_digits (int_part (fmul (width self) 10))))"
  by (simp add: size_metric_def py_int_def bind_err_def rjust_two_digits)

lemma tenths_of_product:
  assumes "0 \<le> x" "x * 10 < 2 ^ 53"
  shows "int_part (fmul x 10) = whole_tenths x
     \<or> (fmul x 10 = of_int (whole_tenths x + 1) \<and> int_part (fmul x 10) = whole_tenths x + 1)"
proof (cases "x = 0")
  case True
  then show ?thesis by (simp add: fmul_def fl_def int_part_def whole_tenths_def)
next
  case False
  define y where "y = x * 10"
  have y: "0 < y" "y < 2 ^ 53" using assms False by (simp_all add: y_def)
  define a where "a = \<lfloor>y\<rfloor>"
  have a: "of_int a \<le> y" "y \<le> of_int (a + 1)" unfolding a_def by linarith+
  have a0: "0 \<le> a" using y by (simp add: a_def)
  have b: "of_int a \<le> fl y" "fl y \<le> of_int (a + 1)"
    using fl_between_ints [OF y a] by simp_all
  have w: "whole_tenths x = a" using y by (simp add: whole_tenths_def int_part_def y_def a_def)
  have nn: "0 \<le> fl y" using b(1) a0 by linarith
  then have ip: "int_part (fmul x 10) = \<lfloor>fl y\<rfloor>" by (simp add: int_part_def fmul_def y_def)
  show ?thesis
  proof (cases "fl y = of_int (a + 1)")
    case True
    then have "\<lfloor>fl y\<rfloor> = a + 1" by (simp only: floor_of_int)
    then have "int_part (fmul x 10) = whole_tenths x + 1" by (simp only: ip w)
    moreover have "fmul x 10 = of_int (whole_tenths x + 1)"
      using True by (simp only: fmul_def y_def [symmetric] w)
    ultimately show ?thesis by blast
  next
    case False
    then have "fl y < of_int (a + 1)" using b(2) by linarith
    then have "fl y < of_int a + 1" by simp
    then have "\<lfloor>fl y\<rfloor> = a" using b(1) by (intro floor_unique)
    then show ?thesis by (simp add: ip w)
  qed
qed

lemma tenths_1206: "fmul (length_mm chip_1206) 10 = 32" "fmul (width chip_1206) 10 = 16"
  by (simp_all add: chip_1206_def chip_config_def fmul_def fl_eval)

lemma tenths_0603: "fmul (length_mm chip_0603) 10 = 16" "fmul (width chip_0603) 10 = 8"
  by (simp_all add: chip_0603_def chip_config_def fmul_def fl_eval)

lemma length_below_tenth: "length_mm chip_below_tenth = 8106479329266892 / 2 ^ 53"
  by (simp add: chip_below_tenth_def chip_config_def fl_eval)

lemma tenths_below_tenth:
  "fmul (length_mm chip_below_tenth) 10 = 9" "fmul (width chip_below_tenth) 10 = 8"
  by (simp_all add: chip_below_tenth_def chip_config_def fmul_def fl_eval)

lemma tenths_long: "fmul (length_mm chip_long) 10 = 100" "fmul (width chip_long) 10 = 50"
  by (simp_all add: chip_long_def chip_config_def fmul_def fl_eval)

lemma tenths_huge: "float_overflow (fmul (length_mm chip_huge) 10)"
proof -
  have "(2::real) powi 1021 \<le> 10 ^ 308" by simp
  then have "2 powi 1021 \<le> fl (10 ^ 308)" by (rule fl_ge_two_powi) simp
  then have "(2::real) powi 1024 \<le> fl (10 ^ 308) * 10" by simp
  then have "2 powi 1024 \<le> fl (fl (10 ^ 308) * 10)" by (rule fl_ge_two_powi) simp
  moreover have "0 \<le> fl (fl (10 ^ 308) * 10)" by (intro fl_nonneg mult_nonneg_nonneg) simp_all
  ultimately show ?thesis
    by (simp add: float_overflow_def fmul_def chip_huge_def chip_config_def)
qed

text \<open>
  C7 says that each dimension is truncated to tenths of a millimetre and written with two
  decimal digits. \<^verbatim>\<open>size_metric\<close> truncates the float product \<^verbatim>\<open>x * 10\<close>, and that
  product is rounded: the float next below \<^verbatim>\<open>0.9\<close> has eight whole tenths, its product
  by ten is rounded to \<^verbatim>\<open>9.0\<close>, and the code is \<^verbatim>\<open>09\<close> where the truncated dimension
  gives \<^verbatim>\<open>08\<close>. A length of ten millimetres is written with three digits, and for a
  length of \<^verbatim>\<open>1e308\<close> the product is infinite and \<^verbatim>\<open>int\<close> raises \<^verbatim>\<open>OverflowError\<close>:
  nothing is returned.
\<close>

theorem size_metric_not_whole_tenths:
  "0 \<le> length_mm chip_below_tenth \<and> length_mm chip_below_tenth < 0.9
   \<and> whole_tenths (length_mm chip_below_tenth) = 8
   \<and> size_metric_in_words chip_below_tenth = ''0808''
   \<and> size_metric chip_below_tenth = Inr ''0908''
   \<and> size_metric chip_long = Inr ''10050''
   \<and> size_metric chip_huge = Inl OverflowError"
proof (intro conjI)
  show "0 \<le> length_mm chip_below_tenth" "length_mm chip_below_tenth < 0.9"
    by (simp_all add: length_below_tenth)
  show w: "whole_tenths (length_mm chip_below_tenth) = 8"
    by (simp add: length_below_tenth whole_tenths_def int_part_def)
  have "whole_tenths (width chip_below_tenth) = 8"
    by (simp add: chip_below_tenth_def chip_config_def fl_eval whole_tenths_def int_part_def)
  then show "size_metric_in_words chip_below_tenth = ''0808''"
    by (simp add: size_metric_in_words_def w two_digits_def)
  show "size_metric chip_below_tenth = Inr ''0908''"
    by (simp add: size_metric_cases tenths_below_tenth float_overflow_def int_part_def
          two_digits_def)
  show "size_metric chip_long = Inr ''10050''"
    by (simp add: size_metric_cases tenths_long float_overflow_def int_part_def
          two_digits_def str_int_def str_nat.simps)
  show "size_metric chip_huge = Inl OverflowError"
    by (simp add: size_metric_cases tenths_huge)
qed

text \<open>
  C7, amended. When neither product \<^verbatim>\<open>length * 10\<close>, \<^verbatim>\<open>width * 10\<close> overflows,
  \<^verbatim>\<open>size_metric\<close> returns, for the length and then for the width, the integer part of
  the float product written with two decimal digits when it is from 0 to 99, and unpadded
  otherwise; when one of them overflows, \<^verbatim>\<open>OverflowError\<close> is raised. For a dimension
  \<open>x\<close> that is not negative, with \<open>x * 10\<close> below \<open>2 ^ 53\<close>, the integer part of the
  float product is the number of whole tenths in \<open>x\<close>, or one more when the product is
  rounded up to that whole number. Length \<^verbatim>\<open>3.2\<close> and width \<^verbatim>\<open>1.6\<close> give \<^verbatim>\<open>3216\<close>,
  and the 0603 part gives \<^verbatim>\<open>1608\<close>.
\<close>

theorem size_metric_float_product:
  "(\<not> float_overflow (fmul (length_mm self) 10) \<and> \<not> float_overflow (fmul (width self) 10) \<longrightarrow>
      size_metric self
        = Inr (two_digits (int_part (fmul (length_mm self) 10))
               @ two_digits (int_part (fmul (width self) 10))))
   \<and> (float_overflow (fmul (length_mm self) 10) \<or> float_overflow (fmul (width self) 10) \<longrightarrow>
        size_metric self = Inl OverflowError)
   \<and> (0 \<le> x \<and> x * 10 < 2 ^ 53 \<longrightarrow>
        int_part (fmul x 10) = whole_tenths x
        \<or> (fmul x 10 = of_int (whole_tenths x + 1)
            \<and> int_part (fmul x 10) = whole_tenths x + 1))
   \<and> length_mm chip_1206 = fl 3.2 \<and> width chip_1206 = fl 1.6
   \<and> size_metric chip_1206 = Inr ''3216''
   \<and> length_mm chip_0603 = fl 1.6 \<and> width chip_0603 = fl 0.8
   \<and> size_metric chip_0603 = Inr ''1608''"
proof (intro conjI impI)
  assume "\<not> float_overflow (fmul (length_mm self) 10)
    \<and> \<not> float_overflow (fmul (width self) 10)"
  then show "size_metric self
        = Inr (two_digits (int_part (fmul (length_mm self) 10))
               @ two_digits (int_part (fmul (width self) 10)))"
    by (simp add: size_metric_cases)
next
  assume "float_overflow (fmul (length_mm self) 10) \<or> float_overflow (fmul (width self) 10)"
  then show "size_metric self = Inl OverflowError"
    by (simp add: size_metric_cases)
next
  assume "0 \<le> x \<and> x * 10 < 2 ^ 53"
  then show "int_part (fmul x 10) = whole_tenths x
        \<or> (fmul x 10 = of_int (whole_tenths x + 1)
            \<and> int_part (fmul x 10) = whole_tenths x + 1)"
    using tenths_of_product [of x] by blast
next
  show "size_metric chip_1206 = Inr ''3216''"
    by (simp add: size_metric_cases tenths_1206 float_overflow_def int_part_def two_digits_def)
  show "size_metric chip_0603 = Inr ''1608''"
    by (simp add: size_metric_cases tenths_0603 float_overflow_def int_part_def two_digits_def)
qed (simp_all add: chip_1206_def chip_0603_def chip_config_def)

theorem size_metric_float_product_witness:
  "\<not> float_overflow (fmul (length_mm chip_0603) 10)
   \<and> \<not> float_overflow (fmul (width chip_0603) 10)
   \<and> size_metric chip_0603 = Inr (two_digits 16 @ two_digits 8)
   \<and> two_digits 16 @ two_digits 8 = ''1608''
   \<and> float_overflow (fmul (length_mm chip_huge) 10)
   \<and> size_metric chip_huge = Inl OverflowError
   \<and> 0 \<le> length_mm chip_below_tenth \<and> length_mm chip_below_tenth * 10 < 2 ^ 53
   \<and> whole_tenths (length_mm chip_below_tenth) = 8
   \<and> fmul (length_mm chip_below_tenth) 10 = 9
   \<and> int_part (fmul (length_mm chip_below_tenth) 10) = 9"
proof -
  have no: "\<not> float_overflow (fmul (length_mm chip_0603) 10)
      \<and> \<not> float_overflow (fmul (width chip_0603) 10)"
    by (simp add: tenths_0603 float_overflow_def)
  from size_metric_float_product [THEN conjunct1, rule_format, OF no]
  have a: "size_metric chip_0603 = Inr (two_digits 16 @ two_digits 8)"
    by (simp add: tenths_0603 int_part_def)
  have td: "two_digits 16 @ two_digits 8 = ''1608''" by (simp add: two_digits_def)
  have ov: "float_overflow (fmul (length_mm chip_huge) 10)
      \<or> float_overflow (fmul (width chip_huge) 10)"
    by (simp add: tenths_huge)
  from size_metric_float_product [THEN conjunct2, THEN conjunct1, rule_format, OF ov]
  have b: "size_metric chip_huge = Inl OverflowError" .
  have r: "0 \<le> length_mm chip_below_tenth \<and> length_mm chip_below_tenth * 10 < 2 ^ 53"
    by (simp add: length_below_tenth)
  have w: "whole_tenths (length_mm chip_below_tenth) = 8"
    by (simp add: length_below_tenth whole_tenths_def int_part_def)
  from size_metric_float_product [THEN conjunct2, THEN conjunct2, THEN conjunct1, rule_format,
    OF r]
  have c: "int_part (fmul (length_mm chip_below_tenth) 10) = 9"
    by (simp add: w tenths_below_tenth int_part_def)
  show ?thesis using no a td tenths_huge b r w c tenths_below_tenth(1) by simp
qed

section \<open>Properties of the identifier cache\<close>

lemma uuid_cached:
  "uuid_cache s (uuid_key X c n r) = Some u \<Longrightarrow> uuid X c n r s = (u, s)"
  by (simp add: uuid_def)

lemma uuid_new_key:
  assumes "uuid_cache s (uuid_key X c n r) = None"
  shows "uuid X c n r s
           = (draw (uuid4 X) (uuid4_calls s),
              s\<lparr>uuid_cache := (uuid_cache s)(uuid_key X c n r \<mapsto> draw (uuid4 X) (uuid4_calls s)),
                uuid4_calls := Suc (uuid4_calls s)\<rparr>)"
  using assms by (simp add: uuid_def)

lemma uuid_stores:
  "uuid_cache (snd (uuid X c n r s)) (uuid_key X c n r) = Some (fst (uuid X c n r s))"
  by (simp add: uuid_def Let_def split: option.splits)

lemma uuid_keeps:
  assumes "uuid_cache s k = Some u"
  shows "uuid_cache (snd (uuid X c n r s)) k = Some u"
  using assms by (cases "uuid_cache s (uuid_key X c n r)") (auto simp: uuid_def)

lemma uuid_calls_keeps:
  "uuid_cache s k = Some u \<Longrightarrow> uuid_cache (uuid_calls X calls s) k = Some u"
proof (induction calls arbitrary: s)
  case Nil
  then show ?case by simp
next
  case (Cons call calls)
  obtain c n r where call: "call = (c, n, r)" by (cases call)
  have "uuid_cache (snd (uuid X c n r s)) k = Some u"
    using Cons.prems by (rule uuid_keeps)
  then show ?case unfolding call by (simp add: Cons.IH)
qed

text \<open>
  C1. Within one cache lifetime, two calls of \<^verbatim>\<open>uuid\<close> whose keys are equal after
  normalisation (lower case, spaces replaced by \<^verbatim>\<open>~\<close>) return the same identifier,
  whatever calls of \<^verbatim>\<open>uuid\<close> are made between them, and the second call leaves the
  cache and the state as it found them. Calling twice with the same arguments is the case
  \<open>c2 = c1\<close>, \<open>n2 = n1\<close>, \<open>r2 = r1\<close>. The key is the one that the code builds, with
  \<^verbatim>\<open>str.lower\<close> as it is in Python.
\<close>

theorem uuid_same_key_same_identifier:
  assumes "uuid_key X c2 n2 r2 = uuid_key X c1 n1 r1"
  shows "uuid X c2 n2 r2 (uuid_calls X calls (snd (uuid X c1 n1 r1 s)))
           = (fst (uuid X c1 n1 r1 s), uuid_calls X calls (snd (uuid X c1 n1 r1 s)))"
proof -
  have "uuid_cache (snd (uuid X c1 n1 r1 s)) (uuid_key X c2 n2 r2)
          = Some (fst (uuid X c1 n1 r1 s))"
    using assms uuid_stores [of X c1 n1 r1 s] by simp
  then have "uuid_cache (uuid_calls X calls (snd (uuid X c1 n1 r1 s))) (uuid_key X c2 n2 r2)
          = Some (fst (uuid X c1 n1 r1 s))"
    by (rule uuid_calls_keeps)
  then show ?thesis by (rule uuid_cached)
qed

theorem uuid_same_key_same_identifier_witness:
  "uuid_key example_externals ''PKG'' ''RESC1608X55 (0603)'' ''Pad-1''
     = uuid_key example_externals ''pkg'' ''resc1608x55~(0603)'' ''pad-1''
   \<and> fst (uuid example_externals ''pkg'' ''resc1608x55~(0603)'' ''pad-1'' empty_state) = ''uuid4-0''
   \<and> uuid example_externals ''PKG'' ''RESC1608X55 (0603)'' ''Pad-1''
         (uuid_calls example_externals [(''pkg'', ''RESC1608X55 (0603)'', ''pad-2'')]
           (snd (uuid example_externals ''pkg'' ''resc1608x55~(0603)'' ''pad-1'' empty_state)))
       = (''uuid4-0'',
          uuid_calls example_externals [(''pkg'', ''RESC1608X55 (0603)'', ''pad-2'')]
            (snd (uuid example_externals ''pkg'' ''resc1608x55~(0603)'' ''pad-1'' empty_state)))
   \<and> uuid_cache
         (uuid_calls example_externals [(''pkg'', ''RESC1608X55 (0603)'', ''pad-2'')]
            (snd (uuid example_externals ''pkg'' ''resc1608x55~(0603)'' ''pad-1'' empty_state)))
         ''pkg-resc1608x55~(0603)-pad-2'' = Some ''uuid4-1''"
proof -
  have k: "uuid_key example_externals ''PKG'' ''RESC1608X55 (0603)'' ''Pad-1''
     = uuid_key example_externals ''pkg'' ''resc1608x55~(0603)'' ''pad-1''"
    by (simp add: uuid_key_def example_externals_def ascii_lower_def replace_char_def)
  have f: "fst (uuid example_externals ''pkg'' ''resc1608x55~(0603)'' ''pad-1'' empty_state)
             = ''uuid4-0''"
    by (simp add: uuid_def empty_state_def example_externals_def draw_example_uuid4
          str_nat.simps)
  have o: "uuid_cache
         (uuid_calls example_externals [(''pkg'', ''RESC1608X55 (0603)'', ''pad-2'')]
            (snd (uuid example_externals ''pkg'' ''resc1608x55~(0603)'' ''pad-1'' empty_state)))
         ''pkg-resc1608x55~(0603)-pad-2'' = Some ''uuid4-1''"
    by (simp add: uuid_def uuid_key_def ascii_lower_def replace_char_def
          empty_state_def example_externals_def draw_example_uuid4 str_nat.simps)
  show ?thesis
    using k f o
      uuid_same_key_same_identifier [OF k, of
        "[(''pkg'', ''RESC1608X55 (0603)'', ''pad-2'')]" empty_state]
    by simp
qed

section \<open>Distinct identifiers\<close>

lemma cache_of_draws_empty: "cache_of_draws X \<lparr>uuid_cache = Map.empty, uuid4_calls = k\<rparr>"
  by (simp add: cache_of_draws_def)

lemma uuid_cache_of_draws:
  assumes "cache_of_draws X s"
  shows "cache_of_draws X (snd (uuid X c n r s))"
proof (cases "uuid_cache s (uuid_key X c n r)")
  case (Some u)
  then show ?thesis using assms by (simp add: uuid_cached)
next
  case None
  have drawn: "\<exists>j<uuid4_calls s. u = draw (uuid4 X) j" if "uuid_cache s k = Some u" for k u
    using assms that unfolding cache_of_draws_def by blast
  have one: "k = k'" if "uuid_cache s k = Some u" "uuid_cache s k' = Some u" for k k' u
    using assms that unfolding cache_of_draws_def by blast
  have fresh: "uuid_cache s k \<noteq> Some (draw (uuid4 X) (uuid4_calls s))" for k
  proof
    assume "uuid_cache s k = Some (draw (uuid4 X) (uuid4_calls s))"
    then obtain j where "j < uuid4_calls s" "draw (uuid4 X) (uuid4_calls s) = draw (uuid4 X) j"
      using drawn by blast
    then show False by (simp add: draw_inj)
  qed
  show ?thesis
    unfolding cache_of_draws_def uuid_new_key [OF None]
  proof (intro conjI allI impI)
    fix k u
    assume "uuid_cache (snd (draw (uuid4 X) (uuid4_calls s),
        s\<lparr>uuid_cache := (uuid_cache s)(uuid_key X c n r \<mapsto> draw (uuid4 X) (uuid4_calls s)),
          uuid4_calls := Suc (uuid4_calls s)\<rparr>)) k = Some u"
    then have "u = draw (uuid4 X) (uuid4_calls s) \<or> uuid_cache s k = Some u"
      by (simp split: if_splits)
    then have "\<exists>j<Suc (uuid4_calls s). u = draw (uuid4 X) j"
      using drawn [of k u] less_Suc_eq by blast
    then show "\<exists>j<uuid4_calls (snd (draw (uuid4 X) (uuid4_calls s),
        s\<lparr>uuid_cache := (uuid_cache s)(uuid_key X c n r \<mapsto> draw (uuid4 X) (uuid4_calls s)),
          uuid4_calls := Suc (uuid4_calls s)\<rparr>)). u = draw (uuid4 X) j"
      by simp
  next
    fix k k' u
    assume "uuid_cache (snd (draw (uuid4 X) (uuid4_calls s),
        s\<lparr>uuid_cache := (uuid_cache s)(uuid_key X c n r \<mapsto> draw (uuid4 X) (uuid4_calls s)),
          uuid4_calls := Suc (uuid4_calls s)\<rparr>)) k = Some u
      \<and> uuid_cache (snd (draw (uuid4 X) (uuid4_calls s),
        s\<lparr>uuid_cache := (uuid_cache s)(uuid_key X c n r \<mapsto> draw (uuid4 X) (uuid4_calls s)),
          uuid4_calls := Suc (uuid4_calls s)\<rparr>)) k' = Some u"
    then show "k = k'"
      using fresh [of k] fresh [of k'] one [of k u k']
      by (simp split: if_splits)
  qed
qed

lemma uuid_calls_cache_of_draws:
  "cache_of_draws X s \<Longrightarrow> cache_of_draws X (uuid_calls X calls s)"
proof (induction calls arbitrary: s)
  case Nil
  then show ?case by simp
next
  case (Cons call calls)
  obtain c n r where call: "call = (c, n, r)" by (cases call)
  have "cache_of_draws X (snd (uuid X c n r s))" using Cons.prems by (rule uuid_cache_of_draws)
  then show ?case unfolding call by (simp add: Cons.IH)
qed

lemma uuid_new_key_fresh:
  assumes "cache_of_draws X s" "uuid_cache s (uuid_key X c n r) = None"
  shows "fst (uuid X c n r s) = draw (uuid4 X) (uuid4_calls s)
     \<and> fst (uuid X c n r s) \<notin> ran (uuid_cache s)"
proof -
  have f: "fst (uuid X c n r s) = draw (uuid4 X) (uuid4_calls s)"
    by (simp add: uuid_new_key [OF assms(2)])
  have "draw (uuid4 X) (uuid4_calls s) \<notin> ran (uuid_cache s)"
  proof
    assume "draw (uuid4 X) (uuid4_calls s) \<in> ran (uuid_cache s)"
    then obtain k where "uuid_cache s k = Some (draw (uuid4 X) (uuid4_calls s))"
      by (auto simp: ran_def)
    then obtain j where "j < uuid4_calls s" "draw (uuid4 X) (uuid4_calls s) = draw (uuid4 X) j"
      using assms(1) unfolding cache_of_draws_def by blast
    then show False by (simp add: draw_inj)
  qed
  then show ?thesis using f by simp
qed

text \<open>
  C8. Two keys whose normalised texts differ, resolved in a cache that starts empty, get
  different identifiers, whatever calls of \<^verbatim>\<open>uuid\<close> are made between the two. In a
  cache filled from empty by any sequence of calls (a cache read from its file was filled in
  this way by earlier runs), a key that is not in the cache receives the next value drawn,
  that value is held by no key of the cache before the call, and is stored under the new
  key. \<^verbatim>\<open>uuid\<close> itself compares no identifiers: the property rests on \<^verbatim>\<open>uuid4\<close>
  returning no value twice.
\<close>

theorem uuid_distinct_keys_distinct_identifiers:
  "(uuid_key X c1 n1 r1 \<noteq> uuid_key X c2 n2 r2 \<longrightarrow>
      fst (uuid X c2 n2 r2
             (uuid_calls X calls
                (snd (uuid X c1 n1 r1 \<lparr>uuid_cache = Map.empty, uuid4_calls = k\<rparr>))))
        \<noteq> fst (uuid X c1 n1 r1 \<lparr>uuid_cache = Map.empty, uuid4_calls = k\<rparr>))
   \<and> (uuid_cache (uuid_calls X calls \<lparr>uuid_cache = Map.empty, uuid4_calls = k\<rparr>)
          (uuid_key X c n r) = None \<longrightarrow>
        fst (uuid X c n r (uuid_calls X calls \<lparr>uuid_cache = Map.empty, uuid4_calls = k\<rparr>))
          = draw (uuid4 X)
              (uuid4_calls (uuid_calls X calls \<lparr>uuid_cache = Map.empty, uuid4_calls = k\<rparr>))
        \<and> fst (uuid X c n r (uuid_calls X calls \<lparr>uuid_cache = Map.empty, uuid4_calls = k\<rparr>))
            \<notin> ran (uuid_cache
                     (uuid_calls X calls \<lparr>uuid_cache = Map.empty, uuid4_calls = k\<rparr>))
        \<and> uuid_cache
              (snd (uuid X c n r
                      (uuid_calls X calls \<lparr>uuid_cache = Map.empty, uuid4_calls = k\<rparr>)))
              (uuid_key X c n r)
            = Some (fst (uuid X c n r
                           (uuid_calls X calls \<lparr>uuid_cache = Map.empty, uuid4_calls = k\<rparr>))))"
  (is "(?differ \<longrightarrow> ?distinct) \<and> (?new \<longrightarrow> ?fresh)")
proof (rule conjI; rule impI)
  assume ne: ?differ
  define s0 where "s0 = \<lparr>uuid_cache = Map.empty, uuid4_calls = k\<rparr>"
  define u1 where "u1 = fst (uuid X c1 n1 r1 s0)"
  define t where "t = uuid_calls X calls (snd (uuid X c1 n1 r1 s0))"
  have inv: "cache_of_draws X t"
    unfolding t_def s0_def
    by (intro uuid_calls_cache_of_draws uuid_cache_of_draws cache_of_draws_empty)
  have held: "uuid_cache t (uuid_key X c1 n1 r1) = Some u1"
    unfolding t_def u1_def by (intro uuid_calls_keeps uuid_stores)
  have "fst (uuid X c2 n2 r2 t) \<noteq> u1"
  proof (cases "uuid_cache t (uuid_key X c2 n2 r2)")
    case None
    then have "fst (uuid X c2 n2 r2 t) \<notin> ran (uuid_cache t)"
      using uuid_new_key_fresh [OF inv] by blast
    moreover have "u1 \<in> ran (uuid_cache t)" using held by (auto simp: ran_def)
    ultimately show ?thesis by auto
  next
    case (Some v)
    then have v: "fst (uuid X c2 n2 r2 t) = v" by (simp add: uuid_cached)
    have "v \<noteq> u1"
    proof
      assume "v = u1"
      then have "uuid_key X c2 n2 r2 = uuid_key X c1 n1 r1"
        using inv Some held unfolding cache_of_draws_def by blast
      then show False using ne by simp
    qed
    then show ?thesis by (simp add: v)
  qed
  then show ?distinct unfolding t_def u1_def s0_def .
next
  define t where "t = uuid_calls X calls \<lparr>uuid_cache = Map.empty, uuid4_calls = k\<rparr>"
  assume ?new
  then have new: "uuid_cache t (uuid_key X c n r) = None" by (simp only: t_def)
  have inv: "cache_of_draws X t"
    unfolding t_def by (intro uuid_calls_cache_of_draws cache_of_draws_empty)
  have "fst (uuid X c n r t) = draw (uuid4 X) (uuid4_calls t)
     \<and> fst (uuid X c n r t) \<notin> ran (uuid_cache t)
     \<and> uuid_cache (snd (uuid X c n r t)) (uuid_key X c n r) = Some (fst (uuid X c n r t))"
    using uuid_new_key_fresh [OF inv new] uuid_stores [of X c n r t] by blast
  then show ?fresh unfolding t_def .
qed

theorem uuid_distinct_keys_distinct_identifiers_witness:
  "uuid_key example_externals ''pkg'' ''RESC1608X55 (0603)'' ''pad-1''
       \<noteq> uuid_key example_externals ''pkg'' ''RESC1608X55 (0603)'' ''pad-2''
   \<and> fst (uuid example_externals ''pkg'' ''RESC1608X55 (0603)'' ''pad-1'' empty_state)
       = ''uuid4-0''
   \<and> fst (uuid example_externals ''pkg'' ''RESC1608X55 (0603)'' ''pad-2''
            (uuid_calls example_externals [(''pkg'', ''RESC1608X55 (0603)'', ''pkg'')]
               (snd (uuid example_externals ''pkg'' ''RESC1608X55 (0603)'' ''pad-1''
                       empty_state))))
       \<noteq> ''uuid4-0''
   \<and> uuid_cache
         (uuid_calls example_externals
            [(''pkg'', ''RESC1608X55 (0603)'', ''pkg''),
             (''pkg'', ''RESC1608X55 (0603)'', ''pad-1'')] empty_state)
         ''pkg-resc1608x55~(0603)-pkg'' = Some ''uuid4-0''
   \<and> uuid_cache
         (uuid_calls example_externals
            [(''pkg'', ''RESC1608X55 (0603)'', ''pkg''),
             (''pkg'', ''RESC1608X55 (0603)'', ''pad-1'')] empty_state)
         ''pkg-resc1608x55~(0603)-pad-1'' = Some ''uuid4-1''
   \<and> uuid_cache
         (uuid_calls example_externals
            [(''pkg'', ''RESC1608X55 (0603)'', ''pkg''),
             (''pkg'', ''RESC1608X55 (0603)'', ''pad-1'')] empty_state)
         (uuid_key example_externals ''pkg'' ''RESC1608X55 (0603)'' ''pad-2'') = None
   \<and> fst (uuid example_externals ''pkg'' ''RESC1608X55 (0603)'' ''pad-2''
            (uuid_calls example_externals
               [(''pkg'', ''RESC1608X55 (0603)'', ''pkg''),
                (''pkg'', ''RESC1608X55 (0603)'', ''pad-1'')] empty_state))
       = ''uuid4-2''
   \<and> fst (uuid example_externals ''pkg'' ''RESC1608X55 (0603)'' ''pad-2''
            (uuid_calls example_externals
               [(''pkg'', ''RESC1608X55 (0603)'', ''pkg''),
                (''pkg'', ''RESC1608X55 (0603)'', ''pad-1'')] empty_state))
       \<notin> ran (uuid_cache
                (uuid_calls example_externals
                   [(''pkg'', ''RESC1608X55 (0603)'', ''pkg''),
                    (''pkg'', ''RESC1608X55 (0603)'', ''pad-1'')] empty_state))"
proof -
  note ev = uuid_def uuid_key_def ascii_lower_def replace_char_def empty_state_def
    example_externals_def draw_example_uuid4 str_nat.simps
  define t where "t = uuid_calls example_externals
            [(''pkg'', ''RESC1608X55 (0603)'', ''pkg''),
             (''pkg'', ''RESC1608X55 (0603)'', ''pad-1'')] empty_state"
  have ne: "uuid_key example_externals ''pkg'' ''RESC1608X55 (0603)'' ''pad-1''
       \<noteq> uuid_key example_externals ''pkg'' ''RESC1608X55 (0603)'' ''pad-2''"
    by (simp add: ev)
  have f: "fst (uuid example_externals ''pkg'' ''RESC1608X55 (0603)'' ''pad-1'' empty_state)
       = ''uuid4-0''"
    by (simp add: ev)
  have a: "fst (uuid example_externals ''pkg'' ''RESC1608X55 (0603)'' ''pad-2''
            (uuid_calls example_externals [(''pkg'', ''RESC1608X55 (0603)'', ''pkg'')]
               (snd (uuid example_externals ''pkg'' ''RESC1608X55 (0603)'' ''pad-1''
                       empty_state))))
       \<noteq> ''uuid4-0''"
    using uuid_distinct_keys_distinct_identifiers [THEN conjunct1, rule_format, OF ne,
      of "[(''pkg'', ''RESC1608X55 (0603)'', ''pkg'')]" 0]
    by (simp add: f empty_state_def [symmetric])
  have c0: "uuid_cache t ''pkg-resc1608x55~(0603)-pkg'' = Some ''uuid4-0''"
    and c1: "uuid_cache t ''pkg-resc1608x55~(0603)-pad-1'' = Some ''uuid4-1''"
    and new: "uuid_cache t (uuid_key example_externals ''pkg'' ''RESC1608X55 (0603)'' ''pad-2'')
      = None"
    and calls: "uuid4_calls t = 2"
    by (simp_all add: t_def ev)
  have tt: "uuid_calls example_externals
            [(''pkg'', ''RESC1608X55 (0603)'', ''pkg''),
             (''pkg'', ''RESC1608X55 (0603)'', ''pad-1'')]
            \<lparr>uuid_cache = Map.empty, uuid4_calls = 0\<rparr> = t"
    by (simp only: t_def empty_state_def)
  have new0: "uuid_cache (uuid_calls example_externals
            [(''pkg'', ''RESC1608X55 (0603)'', ''pkg''),
             (''pkg'', ''RESC1608X55 (0603)'', ''pad-1'')]
            \<lparr>uuid_cache = Map.empty, uuid4_calls = 0\<rparr>)
         (uuid_key example_externals ''pkg'' ''RESC1608X55 (0603)'' ''pad-2'') = None"
    unfolding tt by (rule new)
  have b: "fst (uuid example_externals ''pkg'' ''RESC1608X55 (0603)'' ''pad-2'' t)
          = draw (uuid4 example_externals) (uuid4_calls t)
        \<and> fst (uuid example_externals ''pkg'' ''RESC1608X55 (0603)'' ''pad-2'' t)
            \<notin> ran (uuid_cache t)"
    using uuid_distinct_keys_distinct_identifiers [THEN conjunct2, rule_format, OF new0]
    unfolding tt by blast
  have d: "draw (uuid4 example_externals) (uuid4_calls t) = ''uuid4-2''"
    by (simp add: calls example_externals_def draw_example_uuid4 str_nat.simps)
  have b1: "fst (uuid example_externals ''pkg'' ''RESC1608X55 (0603)'' ''pad-2'' t) = ''uuid4-2''"
    using b d by simp
  have b2: "fst (uuid example_externals ''pkg'' ''RESC1608X55 (0603)'' ''pad-2'' t)
      \<notin> ran (uuid_cache t)"
    using b by blast
  show ?thesis
    unfolding t_def [symmetric]
    by (intro conjI ne f a c0 c1 new b1 b2)
qed

section \<open>One package: the header and the two variants\<close>

lemma same_up_to_identifier_refl: "same_up_to_identifier a a"
  by (simp add: same_up_to_identifier_def)

lemma same_slotI:
  assumes "(pre, post) \<in> set identifier_slots" "a = pre @ u @ post" "b = pre @ v @ post"
  shows "same_up_to_identifier a b"
  unfolding same_up_to_identifier_def using assms by blast

lemma list_all2_same_refl: "list_all2 same_up_to_identifier xs xs"
  by (simp add: list_all2_same same_up_to_identifier_refl)

lemma documentation_lines_same:
  "list_all2 same_up_to_identifier
     (documentation_lines X config u w) (documentation_lines X config v w)"
proof -
  have first: \<open>same_up_to_identifier
      (''  (polygon '' @ u @ '' (layer '' @ ''top_documentation'' @ '')'')
      (''  (polygon '' @ v @ '' (layer '' @ ''top_documentation'' @ '')'')\<close>
    by (rule same_slotI [where pre = "''  (polygon ''" and post = "'' (layer top_documentation)''"
          and u = u and v = v]) (simp_all add: identifier_slots_def)
  show ?thesis
    unfolding documentation_lines_def Let_def
    using first by (simp add: same_up_to_identifier_refl)
qed

lemma silkscreen_lines_same:
  "list_all2 same_up_to_identifier
     (silkscreen_lines X config t b w) (silkscreen_lines X config t' b' w)"
proof -
  have slot: \<open>same_up_to_identifier
      (''  (polygon '' @ u @ '' (layer '' @ ''top_placement'' @ '')'')
      (''  (polygon '' @ v @ '' (layer '' @ ''top_placement'' @ '')'')\<close> for u v
    by (rule same_slotI [where pre = "''  (polygon ''" and post = "'' (layer top_placement)''"
          and u = u and v = v]) (simp_all add: identifier_slots_def)
  show ?thesis
    unfolding silkscreen_lines_def Let_def
    using slot [of t t'] slot [of b b'] by (simp add: same_up_to_identifier_refl)
qed

lemma label_lines_same:
  "list_all2 same_up_to_identifier (label_lines X config n v) (label_lines X config n' v')"
proof -
  have names: \<open>same_up_to_identifier
      (''  (stroke_text '' @ n @ '' (layer top_names)'')
      (''  (stroke_text '' @ n' @ '' (layer top_names)'')\<close>
    by (rule same_slotI [where pre = "''  (stroke_text ''" and post = "'' (layer top_names)''"
          and u = n and v = n']) (simp_all add: identifier_slots_def)
  have vals: \<open>same_up_to_identifier
      (''  (stroke_text '' @ v @ '' (layer top_values)'')
      (''  (stroke_text '' @ v' @ '' (layer top_values)'')\<close>
    by (rule same_slotI [where pre = "''  (stroke_text ''" and post = "'' (layer top_values)''"
          and u = v and v = v']) (simp_all add: identifier_slots_def)
  show ?thesis
    unfolding label_lines_def Let_def
    using names vals by (simp add: same_up_to_identifier_refl)
qed

lemma variant_opening_same:
  \<open>list_all2 same_up_to_identifier
     ['' (footprint '' @ f, ''  (name "'' @ n @ ''")'', ''  (description "")'']
     ['' (footprint '' @ f', ''  (name "'' @ n' @ ''")'', ''  (description "")'']\<close>
proof -
  have a: \<open>same_up_to_identifier ('' (footprint '' @ f) ('' (footprint '' @ f')\<close>
    by (rule same_slotI [where pre = "'' (footprint ''" and post = "[]"
          and u = f and v = f']) (simp_all add: identifier_slots_def)
  have b: \<open>same_up_to_identifier (''  (name "'' @ n @ ''")'') (''  (name "'' @ n' @ ''")'')\<close>
    by (rule same_slotI [where pre = \<open>''  (name "''\<close> and post = \<open>''")''\<close>
          and u = n and v = n']) (simp_all add: identifier_slots_def)
  show ?thesis using a b by (simp add: same_up_to_identifier_refl)
qed

lemma variants_same:
  assumes "add_footprint_variant X config full_name [u1, u2] key name (lines, s)
             = Inr (lines @ v, t)"
    and "add_footprint_variant X config full_name' [u1, u2] key' name' (lines', s')
             = Inr (lines' @ v', t')"
  shows "list_all2 same_up_to_identifier v v'"
proof -
  note a = assms(1) [unfolded add_footprint_variant_blocks]
  note b = assms(2) [unfolded add_footprint_variant_blocks]
  from a have v: \<open>v =
          ['' (footprint '' @ uuid_footprint (fst (variant_uuids X full_name key s)),
             ''  (name "'' @ name @ ''")'',
             ''  (description "")'']
          @ [''  (pad '' @ u2 @ '' (side top) (shape rect)'',
             ''   (position '' @ ff X (fadd (fdiv (gap config) 2) (fdiv (pad_length config) 2))
               @ '' 0) (rotation 0.0) (size '' @ ff X (pad_length config)
               @ '' '' @ ff X (pad_width config) @ '') (drill 0.0)'',
             ''  )'',
             ''  (pad '' @ u1 @ '' (side top) (shape rect)'',
             ''   (position '' @ ff X (- fadd (fdiv (gap config) 2) (fdiv (pad_length config) 2))
               @ '' 0) (rotation 0.0) (size '' @ ff X (pad_length config)
               @ '' '' @ ff X (pad_width config) @ '') (drill 0.0)'',
             ''  )'']
          @ documentation_lines X config (uuid_outline (fst (variant_uuids X full_name key s)))
              (snd (line_widths config))
          @ silkscreen_lines X config
              (uuid_silkscreen_top (fst (variant_uuids X full_name key s)))
              (uuid_silkscreen_bot (fst (variant_uuids X full_name key s)))
              (fst (line_widths config))
          @ label_lines X config (uuid_text_name (fst (variant_uuids X full_name key s)))
              (uuid_text_value (fst (variant_uuids X full_name key s)))
          @ ['' )'']\<close>
    by simp
  from b have v': \<open>v' =
          ['' (footprint '' @ uuid_footprint (fst (variant_uuids X full_name' key' s')),
             ''  (name "'' @ name' @ ''")'',
             ''  (description "")'']
          @ [''  (pad '' @ u2 @ '' (side top) (shape rect)'',
             ''   (position '' @ ff X (fadd (fdiv (gap config) 2) (fdiv (pad_length config) 2))
               @ '' 0) (rotation 0.0) (size '' @ ff X (pad_length config)
               @ '' '' @ ff X (pad_width config) @ '') (drill 0.0)'',
             ''  )'',
             ''  (pad '' @ u1 @ '' (side top) (shape rect)'',
             ''   (position '' @ ff X (- fadd (fdiv (gap config) 2) (fdiv (pad_length config) 2))
               @ '' 0) (rotation 0.0) (size '' @ ff X (pad_length config)
               @ '' '' @ ff X (pad_width config) @ '') (drill 0.0)'',
             ''  )'']
          @ documentation_lines X config
              (uuid_outline (fst (variant_uuids X full_name' key' s')))
              (snd (line_widths config))
          @ silkscreen_lines X config
              (uuid_silkscreen_top (fst (variant_uuids X full_name' key' s')))
              (uuid_silkscreen_bot (fst (variant_uuids X full_name' key' s')))
              (fst (line_widths config))
          @ label_lines X config (uuid_text_name (fst (variant_uuids X full_name' key' s')))
              (uuid_text_value (fst (variant_uuids X full_name' key' s')))
          @ ['' )'']\<close>
    by simp
  show ?thesis
    unfolding v v'
    by (intro list_all2_appendI variant_opening_same list_all2_same_refl
          documentation_lines_same silkscreen_lines_same label_lines_same)
qed


lemma package_uuids_pads:
  "uuid_pads (fst (package_uuids X full_name s))
     = [fst (uuid X ''pkg'' full_name ''pad-1'' (snd (uuid X ''pkg'' full_name ''pkg'' s))),
        fst (uuid X ''pkg'' full_name ''pad-2''
               (snd (uuid X ''pkg'' full_name ''pad-1''
                       (snd (uuid X ''pkg'' full_name ''pkg'' s)))))]"
  by (simp add: package_uuids_def uuid_pkg_role_def split_beta)

lemma general_info_lines_pads:
  assumes "uuid_pads ids = [u1, u2]" "size_metric config = Inr metric"
  shows \<open>\<exists>hdr. general_info_lines X author pkgcat keywords create_date config
              full_name full_desc ids = Inr hdr
          \<and> length hdr = 11
          \<and> hdr ! 9 = '' (pad '' @ u1 @ '' (name "1"))''
          \<and> hdr ! 10 = '' (pad '' @ u2 @ '' (name "2"))''\<close>
  by (simp add: general_info_lines_def assms py_getitem_def bind_err_def)

lemma variant_pads:
  \<open>\<exists>new. add_footprint_variant X config full_name [u1, u2] key name (lines, s)
            = Inr (lines @ new, snd (variant_uuids X full_name key s))
     \<and> length new = (if 1 < length_mm config then 38 else 28)
     \<and> take 2 (drop 3 new)
         = [''  (pad '' @ u2 @ '' (side top) (shape rect)'',
            ''   (position '' @ ff X (fadd (fdiv (gap config) 2) (fdiv (pad_length config) 2))
              @ '' 0) (rotation 0.0) (size '' @ ff X (pad_length config)
              @ '' '' @ ff X (pad_width config) @ '') (drill 0.0)'']
     \<and> take 2 (drop 6 new)
         = [''  (pad '' @ u1 @ '' (side top) (shape rect)'',
            ''   (position '' @ ff X (- fadd (fdiv (gap config) 2) (fdiv (pad_length config) 2))
              @ '' 0) (rotation 0.0) (size '' @ ff X (pad_length config)
              @ '' '' @ ff X (pad_width config) @ '') (drill 0.0)'']\<close>
  by (rule exI, intro conjI, rule add_footprint_variant_blocks)
     (simp_all add: silkscreen_lines_def Let_def)

lemma variants_geometry:
  assumes "add_footprint_variant X config full_name [u1, u2] key name (lines, s)
             = Inr (lines @ v, t)"
    and "add_footprint_variant X config full_name' [u1, u2] key' name' (lines', s')
             = Inr (lines' @ v', t')"
  shows "filter geometry_line v = filter geometry_line v'"
proof -
  note a = assms(1) [unfolded add_footprint_variant_blocks]
  note b = assms(2) [unfolded add_footprint_variant_blocks]
  have doc: "filter geometry_line (documentation_lines X config u w)
      = filter geometry_line (documentation_lines X config [] w)" for u w
    by (simp add: documentation_lines_def Let_def geometry_line_def)
  have silk: "filter geometry_line (silkscreen_lines X config p q w)
      = filter geometry_line (silkscreen_lines X config [] [] w)" for p q w
    by (simp add: silkscreen_lines_def Let_def geometry_line_def)
  have lab: "filter geometry_line (label_lines X config p q)
      = filter geometry_line (label_lines X config [] [])" for p q
    by (simp add: label_lines_def Let_def geometry_line_def)
  from a have "filter geometry_line v
      = filter geometry_line
          ([''  (pad '' @ u2 @ '' (side top) (shape rect)'',
             ''   (position '' @ ff X (fadd (fdiv (gap config) 2) (fdiv (pad_length config) 2))
               @ '' 0) (rotation 0.0) (size '' @ ff X (pad_length config)
               @ '' '' @ ff X (pad_width config) @ '') (drill 0.0)'',
             ''  (pad '' @ u1 @ '' (side top) (shape rect)'',
             ''   (position '' @ ff X (- fadd (fdiv (gap config) 2) (fdiv (pad_length config) 2))
               @ '' 0) (rotation 0.0) (size '' @ ff X (pad_length config)
               @ '' '' @ ff X (pad_width config) @ '') (drill 0.0)'']
           @ documentation_lines X config [] (snd (line_widths config))
           @ silkscreen_lines X config [] [] (fst (line_widths config))
           @ label_lines X config [] [])"
    by (auto simp: geometry_line_def doc [of "uuid_outline _"]
          silk [of "uuid_silkscreen_top _" "uuid_silkscreen_bot _"]
          lab [of "uuid_text_name _" "uuid_text_value _"])
  moreover from b have "filter geometry_line v'
      = filter geometry_line
          ([''  (pad '' @ u2 @ '' (side top) (shape rect)'',
             ''   (position '' @ ff X (fadd (fdiv (gap config) 2) (fdiv (pad_length config) 2))
               @ '' 0) (rotation 0.0) (size '' @ ff X (pad_length config)
               @ '' '' @ ff X (pad_width config) @ '') (drill 0.0)'',
             ''  (pad '' @ u1 @ '' (side top) (shape rect)'',
             ''   (position '' @ ff X (- fadd (fdiv (gap config) 2) (fdiv (pad_length config) 2))
               @ '' 0) (rotation 0.0) (size '' @ ff X (pad_length config)
               @ '' '' @ ff X (pad_width config) @ '') (drill 0.0)'']
           @ documentation_lines X config [] (snd (line_widths config))
           @ silkscreen_lines X config [] [] (fst (line_widths config))
           @ label_lines X config [] [])"
    by (auto simp: geometry_line_def doc [of "uuid_outline _"]
          silk [of "uuid_silkscreen_top _" "uuid_silkscreen_bot _"]
          lab [of "uuid_text_name _" "uuid_text_value _"])
  ultimately show ?thesis by simp
qed

text \<open>
  C9. For every ChipConfig, whatever the name of the package and the two identifiers of its
  pads, the call of \<^verbatim>\<open>add_footprint_variant\<close> for \<^verbatim>\<open>reflow\<close> and the call for
  \<^verbatim>\<open>hand soldering\<close> that follows it append the same number of lines, and line for line
  these are equal or differ only in the identifier or the name that the line carries. The
  lines of geometry (pads, positions, sizes, widths, vertices, text attributes) are the same
  texts in the same order in both. In \<^verbatim>\<open>generate_pkg\<close>: when \<^verbatim>\<open>size_metric\<close> or one of the
  two calls of \<^verbatim>\<open>str.format\<close> on the templates raises, the loop body raises the same error
  before anything is done for the package; in every other case a package is generated, and
  its lines are the eleven lines of general information, the lines of these two variants
  and the closing line.
\<close>

theorem variants_same_geometry:
  \<open>(\<exists>reflow handsoldering s4 s5.
      add_footprint_variant X config full_name [u_pad_1, u_pad_2] ''reflow'' ''reflow''
          (lines, s0)
        = Inr (lines @ reflow, s4)
      \<and> add_footprint_variant X config full_name [u_pad_1, u_pad_2] ''handsoldering''
            ''hand soldering'' (lines @ reflow, s4)
          = Inr (lines @ reflow @ handsoldering, s5)
      \<and> length reflow = length handsoldering
      \<and> list_all2 same_up_to_identifier reflow handsoldering
      \<and> filter geometry_line reflow = filter geometry_line handsoldering)
   \<and> (case size_metric config of
         Inl e \<Rightarrow>
           generate_one X author name description pkgcat keywords create_date config s = Inl e
       | Inr metric \<Rightarrow>
          (case full_name_of X name config metric of
             Inl e \<Rightarrow>
               generate_one X author name description pkgcat keywords create_date config s = Inl e
           | Inr package_name \<Rightarrow>
              (case full_desc_of X description config metric of
                 Inl e \<Rightarrow>
                   generate_one X author name description pkgcat keywords create_date config s = Inl e
               | Inr package_desc \<Rightarrow>
                   \<exists>hdr reflow handsoldering u s3 s4 s5.
                     generate_one X author name description pkgcat keywords create_date config s
                       = Inr ((u, hdr @ reflow @ handsoldering @ ['')'']), s5)
                     \<and> add_footprint_variant X config package_name
                           (uuid_pads (fst (package_uuids X package_name s)))
                           ''reflow'' ''reflow'' (hdr, s3)
                         = Inr (hdr @ reflow, s4)
                     \<and> add_footprint_variant X config package_name
                           (uuid_pads (fst (package_uuids X package_name s)))
                           ''handsoldering'' ''hand soldering'' (hdr @ reflow, s4)
                         = Inr (hdr @ reflow @ handsoldering, s5)
                     \<and> length reflow = length handsoldering
                     \<and> list_all2 same_up_to_identifier reflow handsoldering
                     \<and> filter geometry_line reflow = filter geometry_line handsoldering)))\<close>
  (is "?variants \<and> ?package")
proof (rule conjI)
  show ?variants
  proof -
    define s4 where "s4 = snd (variant_uuids X full_name ''reflow'' s0)"
    define s5 where "s5 = snd (variant_uuids X full_name ''handsoldering'' s4)"
    obtain reflow where
      r: "add_footprint_variant X config full_name [u_pad_1, u_pad_2] ''reflow'' ''reflow''
            (lines, s0) = Inr (lines @ reflow, s4)"
      unfolding s4_def using add_footprint_variant_blocks by blast
    obtain handsoldering where
      d: "add_footprint_variant X config full_name [u_pad_1, u_pad_2] ''handsoldering''
            ''hand soldering'' (lines @ reflow, s4)
            = Inr ((lines @ reflow) @ handsoldering, s5)"
      unfolding s5_def using add_footprint_variant_blocks by blast
    have same: "list_all2 same_up_to_identifier reflow handsoldering"
      using r d by (rule variants_same)
    then have len: "length reflow = length handsoldering" by (rule list_all2_lengthD)
    have geo: "filter geometry_line reflow = filter geometry_line handsoldering"
      using r d by (rule variants_geometry)
    have d': "add_footprint_variant X config full_name [u_pad_1, u_pad_2] ''handsoldering''
          ''hand soldering'' (lines @ reflow, s4) = Inr (lines @ reflow @ handsoldering, s5)"
      using d by simp
    show ?thesis using r d' len same geo by blast
  qed
next
  show ?package
  proof (cases "size_metric config")
    case (Inl e)
    then show ?thesis by (simp add: generate_one_def bind_err_def)
  next
    case metric: (Inr metric)
    show ?thesis
    proof (cases "full_name_of X name config metric")
      case (Inl e)
      then show ?thesis by (simp add: metric generate_one_def bind_err_def)
    next
      case named: (Inr package_name)
      show ?thesis
      proof (cases "full_desc_of X description config metric")
        case (Inl e)
        then show ?thesis by (simp add: metric named generate_one_def bind_err_def)
      next
        case described: (Inr package_desc)
        define ids where "ids = fst (package_uuids X package_name s)"
        define s3 where "s3 = snd (package_uuids X package_name s)"
        obtain pad_1 pad_2 where pads: "uuid_pads ids = [pad_1, pad_2]"
          unfolding ids_def using package_uuids_pads by blast
        obtain hdr where
          h: "general_info_lines X author pkgcat keywords create_date config
                package_name package_desc ids = Inr hdr"
          using general_info_lines_pads [OF pads metric] by blast
        define s4 where "s4 = snd (variant_uuids X package_name ''reflow'' s3)"
        define s5 where "s5 = snd (variant_uuids X package_name ''handsoldering'' s4)"
        obtain reflow where
          r: "add_footprint_variant X config package_name [pad_1, pad_2] ''reflow'' ''reflow''
                (hdr, s3) = Inr (hdr @ reflow, s4)"
          unfolding s4_def using add_footprint_variant_blocks by blast
        obtain handsoldering where
          d: "add_footprint_variant X config package_name [pad_1, pad_2] ''handsoldering''
                ''hand soldering'' (hdr @ reflow, s4)
                = Inr ((hdr @ reflow) @ handsoldering, s5)"
          unfolding s5_def using add_footprint_variant_blocks by blast
        have same: "list_all2 same_up_to_identifier reflow handsoldering"
          using r d by (rule variants_same)
        then have len: "length reflow = length handsoldering" by (rule list_all2_lengthD)
        have geo: "filter geometry_line reflow = filter geometry_line handsoldering"
          using r d by (rule variants_geometry)
        have g: "generate_one X author name description pkgcat keywords create_date config s
            = Inr ((uuid_pkg ids, hdr @ reflow @ handsoldering @ ['')'']), s5)"
          by (simp add: generate_one_def metric named described bind_err_def Let_def
                split_beta ids_def [symmetric] s3_def [symmetric] h [unfolded bind_err_def]
                pads r d)
        have r': "add_footprint_variant X config package_name (uuid_pads ids) ''reflow''
              ''reflow'' (hdr, s3) = Inr (hdr @ reflow, s4)"
          using r by (simp add: pads)
        have d': "add_footprint_variant X config package_name (uuid_pads ids)
              ''handsoldering'' ''hand soldering'' (hdr @ reflow, s4)
              = Inr (hdr @ reflow @ handsoldering, s5)"
          using d by (simp add: pads)
        have "\<exists>hdr reflow handsoldering u s3 s4 s5.
               generate_one X author name description pkgcat keywords create_date config s
                 = Inr ((u, hdr @ reflow @ handsoldering @ ['')'']), s5)
               \<and> add_footprint_variant X config package_name (uuid_pads ids)
                     ''reflow'' ''reflow'' (hdr, s3)
                   = Inr (hdr @ reflow, s4)
               \<and> add_footprint_variant X config package_name (uuid_pads ids)
                     ''handsoldering'' ''hand soldering'' (hdr @ reflow, s4)
                   = Inr (hdr @ reflow @ handsoldering, s5)
               \<and> length reflow = length handsoldering
               \<and> list_all2 same_up_to_identifier reflow handsoldering
               \<and> filter geometry_line reflow = filter geometry_line handsoldering"
          using g r' d' len same geo by blast
        then show ?thesis
          unfolding metric sum.case named described ids_def .
      qed
    qed
  qed
qed

text \<open>
  C10. For every ChipConfig, when \<^verbatim>\<open>uuid_pads\<close> is the list of the identifiers
  \<open>u_pad_1\<close> and \<open>u_pad_2\<close>, a footprint variant has its first pad block, at
  \<open>x = gap / 2 + pad_length / 2\<close>, with \<open>u_pad_2\<close> (the index \<^verbatim>\<open>p - 1\<close> is \<open>- 1\<close>
  there and counts from the end), and its second, at the negated \<open>x\<close>, with \<open>u_pad_1\<close>.
  In \<^verbatim>\<open>generate_pkg\<close>: when \<^verbatim>\<open>size_metric\<close> or one of the two calls of
  \<^verbatim>\<open>str.format\<close> on the templates raises, the loop body raises the same error; in every
  other case a package is generated, in which \<open>pad_1\<close> and \<open>pad_2\<close>, the identifiers
  resolved for the roles \<^verbatim>\<open>pad-1\<close> and \<^verbatim>\<open>pad-2\<close>, are declared in the header with the
  names \<^verbatim>\<open>1\<close> and \<^verbatim>\<open>2\<close>, and both variants carry \<open>pad_2\<close> in the first pad block
  and \<open>pad_1\<close> in the second.
\<close>

theorem pad_identifiers_by_side:
  \<open>(\<exists>new.
      add_footprint_variant X config full_name [u_pad_1, u_pad_2] key variant_name (lines, s0)
        = Inr (lines @ new, snd (variant_uuids X full_name key s0))
      \<and> length new = (if 1 < length_mm config then 38 else 28)
      \<and> take 2 (drop 3 new)
          = [''  (pad '' @ u_pad_2 @ '' (side top) (shape rect)'',
             ''   (position '' @ ff X (fadd (fdiv (gap config) 2) (fdiv (pad_length config) 2))
               @ '' 0) (rotation 0.0) (size '' @ ff X (pad_length config)
               @ '' '' @ ff X (pad_width config) @ '') (drill 0.0)'']
      \<and> take 2 (drop 6 new)
          = [''  (pad '' @ u_pad_1 @ '' (side top) (shape rect)'',
             ''   (position '' @ ff X (- fadd (fdiv (gap config) 2) (fdiv (pad_length config) 2))
               @ '' 0) (rotation 0.0) (size '' @ ff X (pad_length config)
               @ '' '' @ ff X (pad_width config) @ '') (drill 0.0)''])
   \<and> (case size_metric config of
         Inl e \<Rightarrow>
           generate_one X author name description pkgcat keywords create_date config s = Inl e
       | Inr metric \<Rightarrow>
          (case full_name_of X name config metric of
             Inl e \<Rightarrow>
               generate_one X author name description pkgcat keywords create_date config s = Inl e
           | Inr package_name \<Rightarrow>
              (case full_desc_of X description config metric of
                 Inl e \<Rightarrow>
                   generate_one X author name description pkgcat keywords create_date config s = Inl e
               | Inr package_desc \<Rightarrow>
                   let s1 = snd (uuid X ''pkg'' package_name ''pkg'' s);
                       pad_1 = fst (uuid X ''pkg'' package_name ''pad-1'' s1);
                       s2 = snd (uuid X ''pkg'' package_name ''pad-1'' s1);
                       pad_2 = fst (uuid X ''pkg'' package_name ''pad-2'' s2);
                       right = [''  (pad '' @ pad_2 @ '' (side top) (shape rect)'',
                                ''   (position ''
                                  @ ff X (fadd (fdiv (gap config) 2) (fdiv (pad_length config) 2))
                                  @ '' 0) (rotation 0.0) (size '' @ ff X (pad_length config)
                                  @ '' '' @ ff X (pad_width config) @ '') (drill 0.0)''];
                       left = [''  (pad '' @ pad_1 @ '' (side top) (shape rect)'',
                               ''   (position ''
                                 @ ff X (- fadd (fdiv (gap config) 2) (fdiv (pad_length config) 2))
                                 @ '' 0) (rotation 0.0) (size '' @ ff X (pad_length config)
                                 @ '' '' @ ff X (pad_width config) @ '') (drill 0.0)'']
                   in \<exists>hdr reflow handsoldering u s'.
                        generate_one X author name description pkgcat keywords create_date config s
                          = Inr ((u, hdr @ reflow @ handsoldering @ ['')'']), s')
                        \<and> length hdr = 11
                        \<and> length reflow = (if 1 < length_mm config then 38 else 28)
                        \<and> length handsoldering = (if 1 < length_mm config then 38 else 28)
                        \<and> hdr ! 9 = '' (pad '' @ pad_1 @ '' (name "1"))''
                        \<and> hdr ! 10 = '' (pad '' @ pad_2 @ '' (name "2"))''
                        \<and> take 2 (drop 3 reflow) = right \<and> take 2 (drop 6 reflow) = left
                        \<and> take 2 (drop 3 handsoldering) = right
                        \<and> take 2 (drop 6 handsoldering) = left)))\<close>
  (is "?variant \<and> ?package")
proof (rule conjI)
  show ?variant by (rule variant_pads)
next
  show ?package
  proof (cases "size_metric config")
    case (Inl e)
    then show ?thesis by (simp add: generate_one_def bind_err_def)
  next
    case metric: (Inr metric)
    show ?thesis
    proof (cases "full_name_of X name config metric")
      case (Inl e)
      then show ?thesis by (simp add: metric generate_one_def bind_err_def)
    next
      case named: (Inr package_name)
      show ?thesis
      proof (cases "full_desc_of X description config metric")
        case (Inl e)
        then show ?thesis by (simp add: metric named generate_one_def bind_err_def)
      next
        case described: (Inr package_desc)
        define s1 where "s1 = snd (uuid X ''pkg'' package_name ''pkg'' s)"
        define pad_1 where "pad_1 = fst (uuid X ''pkg'' package_name ''pad-1'' s1)"
        define s2 where "s2 = snd (uuid X ''pkg'' package_name ''pad-1'' s1)"
        define pad_2 where "pad_2 = fst (uuid X ''pkg'' package_name ''pad-2'' s2)"
        define ids where "ids = fst (package_uuids X package_name s)"
        define s3 where "s3 = snd (package_uuids X package_name s)"
        have pads: "uuid_pads ids = [pad_1, pad_2]"
          unfolding ids_def pad_1_def pad_2_def s2_def s1_def by (rule package_uuids_pads)
        obtain hdr where
          h: "general_info_lines X author pkgcat keywords create_date config
                package_name package_desc ids = Inr hdr"
          and hl: "length hdr = 11"
          and h9: \<open>hdr ! 9 = '' (pad '' @ pad_1 @ '' (name "1"))''\<close>
          and h10: \<open>hdr ! 10 = '' (pad '' @ pad_2 @ '' (name "2"))''\<close>
          using general_info_lines_pads [OF pads metric] by blast
        obtain reflow where
          r: "add_footprint_variant X config package_name [pad_1, pad_2] ''reflow'' ''reflow''
                (hdr, s3)
                = Inr (hdr @ reflow, snd (variant_uuids X package_name ''reflow'' s3))"
          and rl: "length reflow = (if 1 < length_mm config then 38 else 28)"
          and r3: \<open>take 2 (drop 3 reflow)
               = [''  (pad '' @ pad_2 @ '' (side top) (shape rect)'',
                 ''   (position ''
                   @ ff X (fadd (fdiv (gap config) 2) (fdiv (pad_length config) 2))
                   @ '' 0) (rotation 0.0) (size '' @ ff X (pad_length config)
                   @ '' '' @ ff X (pad_width config) @ '') (drill 0.0)'']\<close>
          and r6: \<open>take 2 (drop 6 reflow)
               = [''  (pad '' @ pad_1 @ '' (side top) (shape rect)'',
                 ''   (position ''
                   @ ff X (- fadd (fdiv (gap config) 2) (fdiv (pad_length config) 2))
                   @ '' 0) (rotation 0.0) (size '' @ ff X (pad_length config)
                   @ '' '' @ ff X (pad_width config) @ '') (drill 0.0)'']\<close>
          using variant_pads by blast
        define s4 where "s4 = snd (variant_uuids X package_name ''reflow'' s3)"
        obtain handsoldering where
          d: "add_footprint_variant X config package_name [pad_1, pad_2] ''handsoldering''
                ''hand soldering'' (hdr @ reflow, s4)
                = Inr ((hdr @ reflow) @ handsoldering,
                    snd (variant_uuids X package_name ''handsoldering'' s4))"
          and dl: "length handsoldering = (if 1 < length_mm config then 38 else 28)"
          and d3: \<open>take 2 (drop 3 handsoldering)
               = [''  (pad '' @ pad_2 @ '' (side top) (shape rect)'',
                 ''   (position ''
                   @ ff X (fadd (fdiv (gap config) 2) (fdiv (pad_length config) 2))
                   @ '' 0) (rotation 0.0) (size '' @ ff X (pad_length config)
                   @ '' '' @ ff X (pad_width config) @ '') (drill 0.0)'']\<close>
          and d6: \<open>take 2 (drop 6 handsoldering)
               = [''  (pad '' @ pad_1 @ '' (side top) (shape rect)'',
                 ''   (position ''
                   @ ff X (- fadd (fdiv (gap config) 2) (fdiv (pad_length config) 2))
                   @ '' 0) (rotation 0.0) (size '' @ ff X (pad_length config)
                   @ '' '' @ ff X (pad_width config) @ '') (drill 0.0)'']\<close>
          using variant_pads by blast
        have g: "generate_one X author name description pkgcat keywords create_date config s
            = Inr ((uuid_pkg ids, hdr @ reflow @ handsoldering @ ['')'']),
                   snd (variant_uuids X package_name ''handsoldering'' s4))"
          by (simp add: generate_one_def metric named described bind_err_def Let_def
                split_beta ids_def [symmetric] s3_def [symmetric] h [unfolded bind_err_def]
                pads r s4_def [symmetric] d)
        have \<open>\<exists>hdr reflow handsoldering u s'.
              generate_one X author name description pkgcat keywords create_date config s
                = Inr ((u, hdr @ reflow @ handsoldering @ ['')'']), s')
              \<and> length hdr = 11
              \<and> length reflow = (if 1 < length_mm config then 38 else 28)
              \<and> length handsoldering = (if 1 < length_mm config then 38 else 28)
              \<and> hdr ! 9 = '' (pad '' @ pad_1 @ '' (name "1"))''
              \<and> hdr ! 10 = '' (pad '' @ pad_2 @ '' (name "2"))''
              \<and> take 2 (drop 3 reflow)
                  = [''  (pad '' @ pad_2 @ '' (side top) (shape rect)'',
                 ''   (position ''
                   @ ff X (fadd (fdiv (gap config) 2) (fdiv (pad_length config) 2))
                   @ '' 0) (rotation 0.0) (size '' @ ff X (pad_length config)
                   @ '' '' @ ff X (pad_width config) @ '') (drill 0.0)'']
              \<and> take 2 (drop 6 reflow)
                  = [''  (pad '' @ pad_1 @ '' (side top) (shape rect)'',
                 ''   (position ''
                   @ ff X (- fadd (fdiv (gap config) 2) (fdiv (pad_length config) 2))
                   @ '' 0) (rotation 0.0) (size '' @ ff X (pad_length config)
                   @ '' '' @ ff X (pad_width config) @ '') (drill 0.0)'']
              \<and> take 2 (drop 3 handsoldering)
                  = [''  (pad '' @ pad_2 @ '' (side top) (shape rect)'',
                 ''   (position ''
                   @ ff X (fadd (fdiv (gap config) 2) (fdiv (pad_length config) 2))
                   @ '' 0) (rotation 0.0) (size '' @ ff X (pad_length config)
                   @ '' '' @ ff X (pad_width config) @ '') (drill 0.0)'']
              \<and> take 2 (drop 6 handsoldering)
                  = [''  (pad '' @ pad_1 @ '' (side top) (shape rect)'',
                 ''   (position ''
                   @ ff X (- fadd (fdiv (gap config) 2) (fdiv (pad_length config) 2))
                   @ '' 0) (rotation 0.0) (size '' @ ff X (pad_length config)
                   @ '' '' @ ff X (pad_width config) @ '') (drill 0.0)'']\<close>
          using g hl rl dl h9 h10 r3 r6 d3 d6 by blast
        then show ?thesis
          unfolding metric sum.case named described Let_def pad_2_def s2_def pad_1_def s1_def .
      qed
    qed
  qed
qed

end
